theory Spec2Isabelle
  imports Main
begin

section \<open>Python values and library functions used by the query compiler\<close>

text \<open>
  The program is \<^verbatim>\<open>newslynx/tasks/query_metric.py\<close> (Python 2): the class
  \<^verbatim>\<open>TSQuery\<close> and its two subclasses compile a time-bucketed metrics query into SQL text.
  Exceptions are values: a function that can raise returns \<open>py_error + 'a\<close>.
\<close>

datatype py_error = KeyError | IndexError | ValueError | UnboundLocalError

type_synonym 'a res = "py_error + 'a"

definition bindr :: "'a res \<Rightarrow> ('a \<Rightarrow> 'b res) \<Rightarrow> 'b res" where
  "bindr m f = (case m of Inl e \<Rightarrow> Inl e | Inr x \<Rightarrow> f x)"

text \<open>A caller may pass one value or a list; \<open>isinstance(x, list)\<close> tells them apart.\<close>

datatype 'a arg = Scalar 'a | ListOf "'a list"

definition as_list :: "'a arg \<Rightarrow> 'a list" where
  "as_list x = (case x of Scalar v \<Rightarrow> [v] | ListOf vs \<Rightarrow> vs)"

text \<open>Truth value of an optional string: \<open>None\<close> and the empty string are false.\<close>

definition truthy :: "string option \<Rightarrow> bool" where
  "truthy v = (case v of None \<Rightarrow> False | Some s \<Rightarrow> s \<noteq> [])"

subsection \<open>\<open>str\<close> of an integer\<close>

fun str_nat :: "nat \<Rightarrow> string" where
  "str_nat n =
     (if n < 10 then [''0123456789'' ! n]
      else str_nat (n div 10) @ [''0123456789'' ! (n mod 10)])"

definition str_int :: "int \<Rightarrow> string" where
  "str_int i = (if i < 0 then CHR ''-'' # str_nat (nat (- i)) else str_nat (nat i))"

subsection \<open>\<open>sep.join(xs)\<close>\<close>

fun join :: "string \<Rightarrow> string list \<Rightarrow> string" where
  "join sep [] = []"
| "join sep [x] = x"
| "join sep (x # y # ys) = x @ sep @ join sep (y # ys)"

subsection \<open>\<open>str.format\<close>\<close>

text \<open>
  A template is split into literal text and replacement fields \<open>{name}\<close>; then each field
  is replaced by its argument. An empty field name takes the next positional argument, a
  numeric one the positional argument of that index, any other name the keyword argument.
  A brace without its partner is a \<open>ValueError\<close>, a missing keyword a \<open>KeyError\<close>, a
  missing position an \<open>IndexError\<close>. Doubled braces, conversions and format
  specifications are not modelled: no template of this program has them.
\<close>

datatype token = Lit string | Field string

fun parse :: "bool \<Rightarrow> string \<Rightarrow> string \<Rightarrow> token list res" where
  "parse False acc [] = Inr [Lit (rev acc)]"
| "parse True acc [] = Inl ValueError"
| "parse False acc (c # cs) =
     (if c = CHR ''{'' then
        (case parse True [] cs of Inl e \<Rightarrow> Inl e | Inr ts \<Rightarrow> Inr (Lit (rev acc) # ts))
      else if c = CHR ''}'' then Inl ValueError
      else parse False (c # acc) cs)"
| "parse True acc (c # cs) =
     (if c = CHR ''}'' then
        (case parse False [] cs of Inl e \<Rightarrow> Inl e | Inr ts \<Rightarrow> Inr (Field (rev acc) # ts))
      else parse True (c # acc) cs)"

definition is_digit :: "char \<Rightarrow> bool" where
  "is_digit c \<longleftrightarrow> c \<in> set ''0123456789''"

definition index_of :: "string \<Rightarrow> nat" where
  "index_of s = foldl (\<lambda>n c. 10 * n + (of_char c - 48)) 0 s"

definition lookup_field ::
  "string list \<Rightarrow> (string \<rightharpoonup> string) \<Rightarrow> nat \<Rightarrow> string \<Rightarrow> string res" where
  "lookup_field args kw auto name =
     (if name = [] then (if auto < length args then Inr (args ! auto) else Inl IndexError)
      else if list_all is_digit name then
        (if index_of name < length args then Inr (args ! index_of name) else Inl IndexError)
      else (case kw name of None \<Rightarrow> Inl KeyError | Some v \<Rightarrow> Inr v))"

fun render :: "string list \<Rightarrow> (string \<rightharpoonup> string) \<Rightarrow> nat \<Rightarrow> token list \<Rightarrow> string res" where
  "render args kw auto [] = Inr []"
| "render args kw auto (Lit s # ts) =
     (case render args kw auto ts of Inl e \<Rightarrow> Inl e | Inr r \<Rightarrow> Inr (s @ r))"
| "render args kw auto (Field f # ts) =
     (case lookup_field args kw auto f of Inl e \<Rightarrow> Inl e
      | Inr v \<Rightarrow> (case render args kw (if f = [] then Suc auto else auto) ts of
                   Inl e \<Rightarrow> Inl e | Inr r \<Rightarrow> Inr (v @ r)))"

definition pyformat :: "string \<Rightarrow> string list \<Rightarrow> (string \<rightharpoonup> string) \<Rightarrow> string res" where
  "pyformat t args kw =
     (case parse False [] t of Inl e \<Rightarrow> Inl e | Inr ts \<Rightarrow> render args kw 0 ts)"


section \<open>Metric definitions, the catalog and the store\<close>

text \<open>
  Modelled from the spec: the metric definition. The dicts are made outside the program
  text at hand; the specification gives a definition a name, a kind and an aggregation,
  and the compiler reads them under the keys \<open>name\<close>, \<open>type\<close> and \<open>agg_fx\<close>.
  A catalog is a dict from metric name to definition: an association list in the order
  \<open>items()\<close> gives, each key once. Dicts are objects: the store maps an address to the
  dict that lives there, so that two references to one dict see each other's changes.
\<close>

record metric =
  name :: string
  type :: string
  agg_fx :: string

type_synonym mdict = "(string \<times> metric) list"

type_synonym addr = nat

type_synonym store = "addr \<Rightarrow> mdict"

definition keys :: "mdict \<Rightarrow> string list" where
  "keys d = map fst d"

text \<open>\<open>d.pop(n)\<close> removes the key, or raises \<open>KeyError\<close> when it is not there.\<close>

definition dict_pop :: "string \<Rightarrow> mdict \<Rightarrow> mdict res" where
  "dict_pop n d =
     (if n \<in> set (keys d) then Inr (filter (\<lambda>(k, v). k \<noteq> n) d) else Inl KeyError)"

text \<open>
  Modelled from the spec: the organisation (the class \<open>Org\<close>), which is not part of
  the program text at hand. The specification's catalog gives, per organisation, a
  mapping from metric name to definition for the base metrics and one for the computed
  metrics; the two subclasses read them from four attributes. Each attribute is taken as
  the address of the dict that \<open>getattr(org, attr)\<close> returns.
\<close>

record org =
  content_timeseries_metrics :: addr
  computed_content_timeseries_metrics :: addr
  timeseries_metrics :: addr
  computed_timeseries_metrics :: addr

section \<open>The class \<open>TSQuery\<close>\<close>

text \<open>
  The class attributes that the subclasses set; \<open>metrics_attr\<close> and
  \<open>computed_metrics_attr\<close> name an attribute of the organisation, and are modelled by
  the function that reads it.
\<close>

record ts_class =
  table :: string
  id_col :: string
  cal_fx :: string
  metrics_attr :: "org \<Rightarrow> addr"
  computed_metrics_attr :: "org \<Rightarrow> addr"

definition ContentMetricTimeseries :: ts_class where
  "ContentMetricTimeseries =
     \<lparr>table = ''content_metric_timeseries'',
      id_col = ''content_item_id'',
      cal_fx = ''content_metric_calendar'',
      metrics_attr = content_timeseries_metrics,
      computed_metrics_attr = computed_content_timeseries_metrics\<rparr>"

definition OrgMetricTimeseries :: ts_class where
  "OrgMetricTimeseries =
     \<lparr>table = ''org_metric_timeseries'',
      id_col = ''org_id'',
      cal_fx = ''org_metric_calendar'',
      metrics_attr = timeseries_metrics,
      computed_metrics_attr = computed_timeseries_metrics\<rparr>"

definition date_col :: string where "date_col = ''datetime''"
definition metrics_col :: string where "metrics_col = ''metrics''"
definition init_table :: string where "init_table = ''init''"
definition sparse_table :: string where "sparse_table = ''sparse''"
definition min_unit :: string where "min_unit = ''hour''"

text \<open>
  The keyword arguments of the constructor: \<open>None\<close> is a key that was not passed (for
  \<open>transform\<close>, \<open>before\<close> and \<open>after\<close> also Python's \<open>None\<close>, which is their default).
  A date is the text \<open>isoformat()\<close> gives, or the string that was passed.
\<close>

record kwargs =
  kw_select :: "string arg option"
  kw_exclude :: "string arg option"
  kw_unit :: "string option"
  kw_sparse :: "bool option"
  kw_sig_digits :: "int option"
  kw_group_by_id :: "bool option"
  kw_rm_nulls :: "bool option"
  kw_time_since_start :: "bool option"
  kw_transform :: "string option"
  kw_before :: "string option"
  kw_after :: "string option"

definition kw_get :: "'a option \<Rightarrow> 'a \<Rightarrow> 'a" where
  "kw_get v d = (case v of None \<Rightarrow> d | Some x \<Rightarrow> x)"

text \<open>The attributes of a \<open>TSQuery\<close> object.\<close>

record tsquery =
  cls :: ts_class
  org :: org
  ids :: "int list"
  select :: "string arg"
  exclude :: "string arg"
  unit :: string
  sparse :: bool
  sig_digits :: int
  group_by_id :: bool
  rm_nulls :: bool
  time_since_start :: bool
  transform :: "string option"
  before :: "string option"
  after :: "string option"
  metrics :: addr
  computed_metrics :: addr
  filter_dates :: bool

subsection \<open>\<open>select_metrics\<close>\<close>

text \<open>
  \<open>for n in d.keys(): if p(n): d.pop(n)\<close>, on the dict at address \<open>a\<close>. In Python 2
  \<open>keys()\<close> is a list, made before the loop starts; the loop body changes the dict in
  the store.
\<close>

fun pop_each :: "(string \<Rightarrow> bool) \<Rightarrow> string list \<Rightarrow> addr \<Rightarrow> store \<Rightarrow> store res" where
  "pop_each p [] a s = Inr s"
| "pop_each p (n # ns) a s =
     (if p n then bindr (dict_pop n (s a)) (\<lambda>d. pop_each p ns a (s(a := d)))
      else pop_each p ns a s)"

definition pop_loop :: "(string \<Rightarrow> bool) \<Rightarrow> addr \<Rightarrow> store \<Rightarrow> store res" where
  "pop_loop p a s = pop_each p (keys (s a)) a s"

definition select_metrics :: "tsquery \<Rightarrow> store \<Rightarrow> (tsquery \<times> store) res" where
  "select_metrics self s =
     bindr
       (if select self \<noteq> Scalar ''*'' then
          (let sel = as_list (select self) in
           bindr (pop_loop (\<lambda>n. n \<notin> set sel) (metrics self) s) (\<lambda>s1.
           bindr (pop_loop (\<lambda>n. n \<notin> set sel) (computed_metrics self) s1) (\<lambda>s2.
           Inr (self\<lparr>select := ListOf sel\<rparr>, s2))))
        else Inr (self, s))
       (\<lambda>(self1, s2).
          (let exc = as_list (exclude self1);
               self2 = self1\<lparr>exclude := ListOf exc\<rparr>
           in if length exc \<noteq> 0 then
                bindr (pop_loop (\<lambda>n. n \<in> set exc) (metrics self2) s2) (\<lambda>s3.
                bindr (pop_loop (\<lambda>n. n \<in> set exc) (computed_metrics self2) s3) (\<lambda>s4.
                Inr (self2, s4)))
              else Inr (self2, s2)))"

subsection \<open>\<open>format_dates\<close> and the constructor\<close>

definition format_date :: "string \<Rightarrow> string" where
  "format_date d = d"

definition format_dates :: "tsquery \<Rightarrow> tsquery" where
  "format_dates self =
     (let self1 = self\<lparr>filter_dates := False\<rparr>;
          self2 = (if truthy (before self1)
                   then self1\<lparr>filter_dates := True, before := map_option format_date (before self1)\<rparr>
                   else self1)
      in if truthy (after self2)
         then self2\<lparr>filter_dates := True, after := map_option format_date (after self2)\<rparr>
         else self2)"

definition TSQuery_init ::
  "ts_class \<Rightarrow> store \<Rightarrow> org \<Rightarrow> int arg \<Rightarrow> kwargs \<Rightarrow> (tsquery \<times> store) res" where
  "TSQuery_init c s og idv kw =
     (let self =
        \<lparr>cls = c,
         org = og,
         ids = as_list idv,
         select = kw_get (kw_select kw) (Scalar ''*''),
         exclude = kw_get (kw_exclude kw) (ListOf []),
         unit = kw_get (kw_unit kw) min_unit,
         sparse = kw_get (kw_sparse kw) True,
         sig_digits = kw_get (kw_sig_digits kw) 2,
         group_by_id = kw_get (kw_group_by_id kw) True,
         rm_nulls = kw_get (kw_rm_nulls kw) False,
         time_since_start = kw_get (kw_time_since_start kw) False,
         transform = kw_transform kw,
         before = kw_before kw,
         after = kw_after kw,
         metrics = metrics_attr c og,
         computed_metrics = computed_metrics_attr c og,
         filter_dates = False\<rparr>
      in bindr (select_metrics self s) (\<lambda>(self1, s1). Inr (format_dates self1, s1)))"


subsection \<open>Arguments of the templates\<close>

text \<open>What \<open>format\<close> writes for an optional string: Python's \<open>None\<close> prints as \<open>None\<close>.\<close>

definition str_opt :: "string option \<Rightarrow> string" where
  "str_opt v = (case v of None \<Rightarrow> ''None'' | Some x \<Rightarrow> x)"

definition ids_array :: "tsquery \<Rightarrow> string res" where
  "ids_array self =
     (let idstring = join '', '' (map str_int (ids self))
      in pyformat ''ARRAY[{}]'' [idstring] Map.empty)"

definition date_filter :: "tsquery \<Rightarrow> string res" where
  "date_filter self =
     (let fmt = (''{} {} '{}'' @ [CHR 0x27]) in
      if \<not> filter_dates self then Inr ''''
      else
        bindr (if truthy (before self)
               then bindr (pyformat fmt [date_col, ''<='', str_opt (before self)] Map.empty)
                      (\<lambda>c. Inr [c])
               else Inr []) (\<lambda>clauses1.
        bindr (if truthy (after self)
               then bindr (pyformat fmt [date_col, ''>='', str_opt (after self)] Map.empty)
                      (\<lambda>c. Inr (clauses1 @ [c]))
               else Inr clauses1) (\<lambda>clauses.
        pyformat ''AND {}'' [join '' AND '' clauses] Map.empty)))"

definition query_kw :: "tsquery \<Rightarrow> (string \<rightharpoonup> string) res" where
  "query_kw self =
     bindr (ids_array self) (\<lambda>ia.
     bindr (date_filter self) (\<lambda>df.
     Inr [''table'' \<mapsto> table (cls self),
          ''id_col'' \<mapsto> id_col (cls self),
          ''date_col'' \<mapsto> date_col,
          ''sig_digits'' \<mapsto> str_int (sig_digits self),
          ''metrics_col'' \<mapsto> metrics_col,
          ''unit'' \<mapsto> unit self,
          ''cal_fx'' \<mapsto> cal_fx (cls self),
          ''sparse_table'' \<mapsto> sparse_table,
          ''ids_array'' \<mapsto> ia,
          ''date_filter'' \<mapsto> df]))"

text \<open>\<open>dict(self.query_kw.items() + kw.items())\<close>: a later key replaces an earlier one.\<close>

definition add_kw :: "tsquery \<Rightarrow> (string \<rightharpoonup> string) \<Rightarrow> (string \<rightharpoonup> string) res" where
  "add_kw self kw = bindr (query_kw self) (\<lambda>q. Inr (q ++ kw))"

text \<open>The keyword arguments \<open>**metric\<close>.\<close>

definition metric_kw :: "metric \<Rightarrow> (string \<rightharpoonup> string)" where
  "metric_kw m = [''name'' \<mapsto> name m, ''type'' \<mapsto> type m, ''agg_fx'' \<mapsto> agg_fx m]"

subsection \<open>Select statements\<close>

definition select_json :: "tsquery \<Rightarrow> metric \<Rightarrow> string res" where
  "select_json self m =
     bindr (add_kw self (metric_kw m)) (\<lambda>kw.
     pyformat ''({metrics_col} ->> '{name}')::text::numeric'' [] kw)"

definition select_simple :: "tsquery \<Rightarrow> metric \<Rightarrow> string res" where
  "select_simple self m =
     bindr (select_json self m) (\<lambda>j.
     bindr (add_kw self (metric_kw m)) (\<lambda>kw.
     pyformat ''{j} as {name}'' [] (kw(''j'' \<mapsto> j))))"

definition select_cumulative_to_count :: "tsquery \<Rightarrow> metric \<Rightarrow> string res" where
  "select_cumulative_to_count self m =
     bindr (select_json self m) (\<lambda>j.
     bindr (add_kw self (metric_kw m)) (\<lambda>kw.
     pyformat ''COALESCE(\<newline>                    {j} - lag({j}) OVER (PARTITION BY {id_col} ORDER BY {date_col} ASC),\<newline>                    {j}) as {name}'' [] (kw(''j'' \<mapsto> j))))"

definition select_agg :: "tsquery \<Rightarrow> metric \<Rightarrow> string res" where
  "select_agg self m =
     (let s = ''ROUND({agg_fx}({name}), {sig_digits}) as {name}''
      in bindr (add_kw self (metric_kw m)) (\<lambda>kw. pyformat s [] kw))"

definition select_non_sparse :: "tsquery \<Rightarrow> metric \<Rightarrow> string res" where
  "select_non_sparse self m =
     (let s = ''COALESCE({sparse_table}.{name}, 0) as {name}''
      in bindr (add_kw self (metric_kw m)) (\<lambda>kw. pyformat s [] kw))"

definition select_cumulative :: "tsquery \<Rightarrow> metric \<Rightarrow> string res" where
  "select_cumulative self m =
     bindr (pyformat ''PARTITION BY {}'' [id_col (cls self)] Map.empty) (\<lambda>p0.
     (let p = (if \<not> group_by_id self then '''' else p0);
          s = ''sum({name}) OVER ({p} ORDER BY {date_col} ASC) AS {name}''
      in bindr (add_kw self (metric_kw m)) (\<lambda>kw. pyformat s [] (kw(''p'' \<mapsto> p)))))"

text \<open>
  \<open>ss = []; for n, m in self.metrics.items(): ss.append(f(n, m))\<close>: the statements in
  the order of the dict, up to the first one that raises.
\<close>

fun collect :: "('a \<Rightarrow> 'b res) \<Rightarrow> 'a list \<Rightarrow> 'b list res" where
  "collect f [] = Inr []"
| "collect f (x # xs) = bindr (f x) (\<lambda>y. bindr (collect f xs) (\<lambda>ys. Inr (y # ys)))"

definition init_select :: "store \<Rightarrow> tsquery \<Rightarrow> string res" where
  "init_select s self =
     bindr (collect (\<lambda>(n, m). if type m = ''cumulative''
                               then select_cumulative_to_count self m
                               else select_simple self m) (s (metrics self)))
       (\<lambda>ss. Inr (join '',\<newline>'' ss))"

definition agg_select :: "store \<Rightarrow> tsquery \<Rightarrow> string res" where
  "agg_select s self =
     bindr (collect (\<lambda>(n, m). select_agg self m) (s (metrics self)))
       (\<lambda>ss. Inr (join '',\<newline>'' ss))"

definition non_sparse_select :: "store \<Rightarrow> tsquery \<Rightarrow> string res" where
  "non_sparse_select s self =
     bindr (collect (\<lambda>(n, m). select_non_sparse self m) (s (metrics self)))
       (\<lambda>ss. Inr (join '',\<newline>'' ss))"

definition cumulative_select :: "store \<Rightarrow> tsquery \<Rightarrow> string res" where
  "cumulative_select s self =
     bindr (collect (\<lambda>(n, m). if agg_fx m = ''sum''
                               then select_cumulative self m
                               else Inr n) (s (metrics self)))
       (\<lambda>ss. Inr (join '',\<newline>'' ss))"

subsection \<open>The queries\<close>

definition init_kw :: "store \<Rightarrow> tsquery \<Rightarrow> (string \<rightharpoonup> string) res" where
  "init_kw s self =
     bindr (pyformat ''{},'' [id_col (cls self)] Map.empty) (\<lambda>i0.
     (let init_id_col = (if \<not> group_by_id self then '''' else i0) in
      bindr (init_select s self) (\<lambda>sel.
      add_kw self [''select'' \<mapsto> sel, ''init_id_col'' \<mapsto> init_id_col])))"

definition init_query :: "store \<Rightarrow> tsquery \<Rightarrow> string res" where
  "init_query s self =
     bindr (init_kw s self) (\<lambda>kw.
     pyformat ''SELECT\<newline>                    {init_id_col}\<newline>                    date_trunc('{unit}', {date_col}) as {date_col},\<newline>                    {select}\<newline>                FROM {table}\<newline>                    WHERE {id_col} IN (select unnest({ids_array}))\<newline>                    {date_filter}\<newline>            '' [] kw)"

definition agg_kw :: "store \<Rightarrow> tsquery \<Rightarrow> (string \<rightharpoonup> string) res" where
  "agg_kw s self =
     bindr (pyformat ''{0},'' [id_col (cls self)] Map.empty) (\<lambda>a0.
     bindr (pyformat '',{0}'' [id_col (cls self)] Map.empty) (\<lambda>o0.
     (let agg_id_col = (if \<not> group_by_id self then '''' else a0);
          agg_order_by = (if \<not> group_by_id self then '''' else o0) in
      bindr (agg_select s self) (\<lambda>sel.
      bindr (init_query s self) (\<lambda>iq.
      add_kw self [''select'' \<mapsto> sel, ''init_query'' \<mapsto> iq,
                   ''agg_id_col'' \<mapsto> agg_id_col, ''agg_order_by'' \<mapsto> agg_order_by])))))"

definition agg_query :: "store \<Rightarrow> tsquery \<Rightarrow> string res" where
  "agg_query s self =
     bindr (agg_kw s self) (\<lambda>kw.
     pyformat ''SELECT {agg_id_col}\<newline>                    date_trunc('{unit}', {date_col}) as {date_col},\<newline>                    {select}\<newline>                FROM ({init_query}) t1\<newline>                GROUP BY {agg_id_col} {date_col}\<newline>                ORDER BY {date_col} {agg_order_by} ASC\<newline>            '' [] kw)"

definition cal_kw :: "tsquery \<Rightarrow> (string \<rightharpoonup> string) res" where
  "cal_kw self =
     bindr (if truthy (before self)
            then pyformat ('', '{}'' @ [CHR 0x27]) [str_opt (before self)] Map.empty
            else Inr '''') (\<lambda>before_arg.
     bindr (if truthy (after self)
            then pyformat ('', '{}'' @ [CHR 0x27]) [str_opt (after self)] Map.empty
            else Inr '''') (\<lambda>after_arg.
     add_kw self [''before'' \<mapsto> before_arg, ''after'' \<mapsto> after_arg]))"

definition cal :: "tsquery \<Rightarrow> string res" where
  "cal self =
     (let p = ''{cal_fx}('1 {unit}s', {ids_array} {after} {before})''
      in bindr (cal_kw self) (\<lambda>kw. pyformat p [] kw))"

definition non_sparse_kw :: "store \<Rightarrow> tsquery \<Rightarrow> (string \<rightharpoonup> string) res" where
  "non_sparse_kw s self =
     bindr (if unit self = min_unit then init_query s self else agg_query s self) (\<lambda>init_q.
     bindr (pyformat ''{0},\<newline>'' [id_col (cls self)] Map.empty) (\<lambda>c1.
     bindr (pyformat ''cal.{0}'' [c1] Map.empty) (\<lambda>c2.
     bindr (pyformat ''AND cal.{0} = {1}.{0}'' [id_col (cls self), sparse_table] Map.empty) (\<lambda>cj.
     bindr (pyformat '', cal.{0}'' [id_col (cls self)] Map.empty) (\<lambda>co.
     bindr (pyformat ''{}'' [date_col] Map.empty) (\<lambda>cd.
     bindr (if \<not> group_by_id self
            then pyformat ''distinct({})'' [date_col] Map.empty
            else Inr cd) (\<lambda>cal_date_select.
     (let cal_id_col1 = (if \<not> group_by_id self then '''' else c1);
          cal_id_col2 = (if \<not> group_by_id self then '''' else c2);
          cal_id_join = (if \<not> group_by_id self then '''' else cj);
          cal_order_by = (if \<not> group_by_id self then '''' else co) in
      bindr (non_sparse_select s self) (\<lambda>sel.
      bindr (cal self) (\<lambda>cl.
      add_kw self [''select'' \<mapsto> sel, ''init_q'' \<mapsto> init_q, ''cal'' \<mapsto> cl,
                   ''cal_id_join'' \<mapsto> cal_id_join, ''cal_id_col1'' \<mapsto> cal_id_col1,
                   ''cal_id_col2'' \<mapsto> cal_id_col2, ''cal_order_by'' \<mapsto> cal_order_by,
                   ''cal_date_select'' \<mapsto> cal_date_select]))))))))))"

definition non_sparse_query :: "store \<Rightarrow> tsquery \<Rightarrow> string res" where
  "non_sparse_query s self =
     bindr (non_sparse_kw s self) (\<lambda>kw.
     pyformat ''WITH {sparse_table} as (\<newline>                    {init_q}\<newline>                ),\<newline>                cal as (\<newline>                    select\<newline>                        {cal_id_col1}\<newline>                        {cal_date_select}\<newline>                        from {cal}\<newline>                )\<newline>                SELECT\<newline>                       {cal_id_col2}\<newline>                       cal.{date_col},\<newline>                       {select}\<newline>                FROM cal\<newline>                LEFT JOIN {sparse_table} ON\<newline>                    cal.{date_col} = {sparse_table}.{date_col}\<newline>                    {cal_id_join}\<newline>                ORDER BY cal.{date_col} {cal_order_by} ASC\<newline>            '' [] kw)"

definition cumulative_kw :: "store \<Rightarrow> tsquery \<Rightarrow> (string \<rightharpoonup> string) res" where
  "cumulative_kw s self =
     bindr (if sparse self \<and> unit self = ''hour'' \<and> group_by_id self then init_query s self
            else if sparse self then agg_query s self
            else if \<not> sparse self then non_sparse_query s self
            else Inl UnboundLocalError) (\<lambda>init_q.
     bindr (pyformat ''{},'' [id_col (cls self)] Map.empty) (\<lambda>i0.
     (let id_col0 = (if \<not> group_by_id self then '''' else i0) in
      bindr (cumulative_select s self) (\<lambda>sel.
      add_kw self [''select'' \<mapsto> sel, ''init_q'' \<mapsto> init_q, ''_id_col'' \<mapsto> id_col0]))))"

definition cumulative_query :: "store \<Rightarrow> tsquery \<Rightarrow> string res" where
  "cumulative_query s self =
     bindr (cumulative_kw s self) (\<lambda>kw.
     pyformat '' SELECT\<newline>                    {date_col},\<newline>                    {_id_col}\<newline>                    {select}\<newline>                FROM (\<newline>                    {init_q}\<newline>                ) t2\<newline>            '' [] kw)"

text \<open>
  \<open>query\<close> returns the text of the whole query, or Python's \<open>None\<close> when no branch
  matches (the function then ends without a \<open>return\<close>). \<open>execute\<close> hands this
  value to the database session, which is outside the program text at hand.
\<close>

definition query :: "store \<Rightarrow> tsquery \<Rightarrow> string option res" where
  "query s self =
     (if sparse self \<and> unit self = min_unit \<and> \<not> truthy (transform self) then
        bindr (init_query s self) (\<lambda>t. Inr (Some t))
      else if sparse self \<and> \<not> truthy (transform self) then
        bindr (agg_query s self) (\<lambda>t. Inr (Some t))
      else if \<not> sparse self \<and> \<not> truthy (transform self) then
        bindr (non_sparse_query s self) (\<lambda>t. Inr (Some t))
      else if transform self = Some ''cumulative'' then
        bindr (cumulative_query s self) (\<lambda>t. Inr (Some t))
      else Inr None)"

section \<open>The text each statement and query evaluates to\<close>

text \<open>
  The functions above build their result with \<open>format\<close>. The definitions of this
  section give the same texts as plain concatenations; the lemmas of the next section
  show that each function returns its text and never raises.
\<close>

definition ids_array_text :: "tsquery \<Rightarrow> string" where
  "ids_array_text self = ''ARRAY['' @ join '', '' (map str_int (ids self)) @ '']''"

definition date_clause_text :: "string \<Rightarrow> string option \<Rightarrow> string list" where
  "date_clause_text opr d =
     (if truthy d
      then [date_col @ '' '' @ opr @ '' '' @ [CHR 0x27] @ str_opt d @ [CHR 0x27]]
      else [])"

definition date_filter_text :: "tsquery \<Rightarrow> string" where
  "date_filter_text self =
     (if filter_dates self
      then ''AND '' @
           join '' AND '' (date_clause_text ''<='' (before self) @
                           date_clause_text ''>='' (after self))
      else [])"

definition query_kw_map :: "tsquery \<Rightarrow> (string \<rightharpoonup> string)" where
  "query_kw_map self =
     [''table'' \<mapsto> table (cls self),
      ''id_col'' \<mapsto> id_col (cls self),
      ''date_col'' \<mapsto> date_col,
      ''sig_digits'' \<mapsto> str_int (sig_digits self),
      ''metrics_col'' \<mapsto> metrics_col,
      ''unit'' \<mapsto> unit self,
      ''cal_fx'' \<mapsto> cal_fx (cls self),
      ''sparse_table'' \<mapsto> sparse_table,
      ''ids_array'' \<mapsto> ids_array_text self,
      ''date_filter'' \<mapsto> date_filter_text self]"

definition json_text :: "metric \<Rightarrow> string" where
  "json_text m = ''('' @ metrics_col @ '' ->> '' @ [CHR 0x27] @ name m @ ''')::text::numeric''"

definition simple_text :: "metric \<Rightarrow> string" where
  "simple_text m = json_text m @ '' as '' @ name m"

definition cumulative_to_count_text :: "tsquery \<Rightarrow> metric \<Rightarrow> string" where
  "cumulative_to_count_text self m =
     ''COALESCE(\<newline>                    '' @ json_text m @ '' - lag('' @ json_text m @
     '') OVER (PARTITION BY '' @ id_col (cls self) @ '' ORDER BY '' @ date_col @
     '' ASC),\<newline>                    '' @ json_text m @ '') as '' @ name m"

definition agg_text :: "tsquery \<Rightarrow> metric \<Rightarrow> string" where
  "agg_text self m = ''ROUND('' @ agg_fx m @ ''('' @ name m @ ''), '' @ str_int (sig_digits self) @ '') as '' @
     name m"

definition non_sparse_text :: "metric \<Rightarrow> string" where
  "non_sparse_text m = ''COALESCE('' @ sparse_table @ ''.'' @ name m @ '', 0) as '' @ name m"

definition partition_text :: "tsquery \<Rightarrow> string" where
  "partition_text self = (if group_by_id self then ''PARTITION BY '' @ id_col (cls self) else [])"

definition cumulative_text :: "tsquery \<Rightarrow> metric \<Rightarrow> string" where
  "cumulative_text self m = ''sum('' @ name m @ '') OVER ('' @ partition_text self @ '' ORDER BY '' @ date_col @
     '' ASC) AS '' @ name m"

definition init_select_text :: "store \<Rightarrow> tsquery \<Rightarrow> string" where
  "init_select_text s self =
     join '',\<newline>''
       (map (\<lambda>(n, m). if type m = ''cumulative'' then cumulative_to_count_text self m
                        else simple_text m) (s (metrics self)))"

definition agg_select_text :: "store \<Rightarrow> tsquery \<Rightarrow> string" where
  "agg_select_text s self = join '',\<newline>'' (map (\<lambda>(n, m). agg_text self m) (s (metrics self)))"

definition non_sparse_select_text :: "store \<Rightarrow> tsquery \<Rightarrow> string" where
  "non_sparse_select_text s self =
     join '',\<newline>'' (map (\<lambda>(n, m). non_sparse_text m) (s (metrics self)))"

definition cumulative_select_text :: "store \<Rightarrow> tsquery \<Rightarrow> string" where
  "cumulative_select_text s self =
     join '',\<newline>''
       (map (\<lambda>(n, m). if agg_fx m = ''sum'' then cumulative_text self m else n)
          (s (metrics self)))"

definition id_col_comma :: "tsquery \<Rightarrow> string" where
  "id_col_comma self = (if group_by_id self then id_col (cls self) @ '','' else [])"

definition init_query_text :: "store \<Rightarrow> tsquery \<Rightarrow> string" where
  "init_query_text s self =
     ''SELECT\<newline>                    '' @ id_col_comma self @
     ''\<newline>                    date_trunc('' @ [CHR 0x27] @ unit self @ ''', '' @ date_col @
     '') as '' @ date_col @ '',\<newline>                    '' @ init_select_text s self @
     ''\<newline>                FROM '' @ table (cls self) @
     ''\<newline>                    WHERE '' @ id_col (cls self) @ '' IN (select unnest('' @
     ids_array_text self @ ''))\<newline>                    '' @ date_filter_text self @
     ''\<newline>            ''"

definition agg_query_text :: "store \<Rightarrow> tsquery \<Rightarrow> string" where
  "agg_query_text s self =
     ''SELECT '' @ id_col_comma self @ ''\<newline>                    date_trunc('' @
     [CHR 0x27] @ unit self @ ''', '' @ date_col @ '') as '' @ date_col @
     '',\<newline>                    '' @ agg_select_text s self @
     ''\<newline>                FROM ('' @ init_query_text s self @
     '') t1\<newline>                GROUP BY '' @ id_col_comma self @ '' '' @ date_col @
     ''\<newline>                ORDER BY '' @ date_col @ '' '' @
     (if group_by_id self then '','' @ id_col (cls self) else []) @
     '' ASC\<newline>            ''"

definition cal_bound_text :: "string option \<Rightarrow> string" where
  "cal_bound_text d = (if truthy d then '', '' @ [CHR 0x27] @ str_opt d @ [CHR 0x27] else [])"

definition cal_text :: "tsquery \<Rightarrow> string" where
  "cal_text self = cal_fx (cls self) @ ''('1 '' @ unit self @ ''s', '' @ ids_array_text self @ '' '' @
     cal_bound_text (after self) @ '' '' @ cal_bound_text (before self) @ '')''"

definition non_sparse_query_text :: "store \<Rightarrow> tsquery \<Rightarrow> string" where
  "non_sparse_query_text s self =
     ''WITH '' @ sparse_table @ '' as (\<newline>                    '' @
     (if unit self = min_unit then init_query_text s self else agg_query_text s self) @
     ''\<newline>                ),\<newline>                cal as (\<newline>                    select\<newline>                        '' @
     (if group_by_id self then id_col (cls self) @ '',\<newline>'' else []) @
     ''\<newline>                        '' @
     (if group_by_id self then date_col else ''distinct('' @ date_col @ '')'') @
     ''\<newline>                        from '' @ cal_text self @
     ''\<newline>                )\<newline>                SELECT\<newline>                       '' @
     (if group_by_id self then ''cal.'' @ id_col (cls self) @ '',\<newline>'' else []) @
     ''\<newline>                       cal.'' @ date_col @
     '',\<newline>                       '' @ non_sparse_select_text s self @
     ''\<newline>                FROM cal\<newline>                LEFT JOIN '' @ sparse_table @
     '' ON\<newline>                    cal.'' @ date_col @ '' = '' @ sparse_table @ ''.'' @
     date_col @ ''\<newline>                    '' @ (if group_by_id self then ''AND cal.'' @
     id_col (cls self) @ '' = '' @ sparse_table @ ''.'' @ id_col (cls self) else []) @
     ''\<newline>                ORDER BY cal.'' @ date_col @ '' '' @
     (if group_by_id self then '', cal.'' @ id_col (cls self) else []) @
     '' ASC\<newline>            ''"

definition cumulative_query_text :: "store \<Rightarrow> tsquery \<Rightarrow> string" where
  "cumulative_query_text s self =
     '' SELECT\<newline>                    '' @ date_col @ '',\<newline>                    '' @
     id_col_comma self @ ''\<newline>                    '' @ cumulative_select_text s self @
     ''\<newline>                FROM (\<newline>                    '' @
     (if sparse self \<and> unit self = ''hour'' \<and> group_by_id self then init_query_text s self else if sparse self then agg_query_text s self else non_sparse_query_text s self) @
     ''\<newline>                ) t2\<newline>            ''"

section \<open>What metric selection keeps\<close>

text \<open>
  The names that remain after selection, in the words of the specification: with a
  \<open>select\<close> other than \<open>"*"\<close> only the names it lists, and of those the ones that
  \<open>exclude\<close> does not list.
\<close>

definition keeps :: "string arg \<Rightarrow> string arg \<Rightarrow> string \<Rightarrow> bool" where
  "keeps sel exc n \<longleftrightarrow>
     (sel = Scalar ''*'' \<or> n \<in> set (as_list sel)) \<and> n \<notin> set (as_list exc)"

definition narrowed :: "string arg \<Rightarrow> string arg \<Rightarrow> mdict \<Rightarrow> mdict" where
  "narrowed sel exc d = filter (\<lambda>(k, v). keeps sel exc k) d"

text \<open>
  The object the constructor leaves behind: the attributes as passed or defaulted, with a
  scalar \<open>select\<close> other than \<open>"*"\<close> and a scalar \<open>exclude\<close> wrapped into lists.
\<close>

definition constructed :: "ts_class \<Rightarrow> org \<Rightarrow> int arg \<Rightarrow> kwargs \<Rightarrow> tsquery" where
  "constructed c og idv kw =
     format_dates
       \<lparr>cls = c,
        org = og,
        ids = as_list idv,
        select = (if kw_get (kw_select kw) (Scalar ''*'') = Scalar ''*'' then Scalar ''*''
                  else ListOf (as_list (kw_get (kw_select kw) (Scalar ''*'')))),
        exclude = ListOf (as_list (kw_get (kw_exclude kw) (ListOf []))),
        unit = kw_get (kw_unit kw) min_unit,
        sparse = kw_get (kw_sparse kw) True,
        sig_digits = kw_get (kw_sig_digits kw) 2,
        group_by_id = kw_get (kw_group_by_id kw) True,
        rm_nulls = kw_get (kw_rm_nulls kw) False,
        time_since_start = kw_get (kw_time_since_start kw) False,
        transform = kw_transform kw,
        before = kw_before kw,
        after = kw_after kw,
        metrics = metrics_attr c og,
        computed_metrics = computed_metrics_attr c og,
        filter_dates = False\<rparr>"

definition narrowed_store :: "ts_class \<Rightarrow> org \<Rightarrow> kwargs \<Rightarrow> store \<Rightarrow> store" where
  "narrowed_store c og kw s =
     s(metrics_attr c og :=
         narrowed (kw_get (kw_select kw) (Scalar ''*'')) (kw_get (kw_exclude kw) (ListOf []))
           (s (metrics_attr c og)),
       computed_metrics_attr c og :=
         narrowed (kw_get (kw_select kw) (Scalar ''*'')) (kw_get (kw_exclude kw) (ListOf []))
           (s (computed_metrics_attr c og)))"

section \<open>Construct and compile\<close>

text \<open>
  What a caller does, as in the \<open>__main__\<close> block: \<open>cms = Cls(org, ids, **kw)\<close>
  followed by \<open>cms.query\<close>.
\<close>

definition compile ::
  "ts_class \<Rightarrow> store \<Rightarrow> org \<Rightarrow> int arg \<Rightarrow> kwargs \<Rightarrow> string option res" where
  "compile c s og idv kw = bindr (TSQuery_init c s og idv kw) (\<lambda>(self, s1). query s1 self)"

section \<open>A small catalog\<close>

text \<open>
  The catalog of the specification's scenario, \<open>pageviews\<close> (count, summed) and
  \<open>followers\<close> (cumulative, maximum), with one computed metric beside it.
\<close>

definition pageviews :: metric where
  "pageviews = \<lparr>name = ''pageviews'', type = ''count'', agg_fx = ''sum''\<rparr>"

definition followers :: metric where
  "followers = \<lparr>name = ''followers'', type = ''cumulative'', agg_fx = ''max''\<rparr>"

definition ratio :: metric where
  "ratio = \<lparr>name = ''ratio'', type = ''count'', agg_fx = ''avg''\<rparr>"

definition ex_store :: store where
  "ex_store =
     (\<lambda>a. [])(0 := [(''pageviews'', pageviews), (''followers'', followers)],
              Suc 0 := [(''ratio'', ratio)])"

definition ex_org :: org where
  "ex_org =
     \<lparr>content_timeseries_metrics = 0,
      computed_content_timeseries_metrics = Suc 0,
      timeseries_metrics = 2,
      computed_timeseries_metrics = 3\<rparr>"

definition no_kw :: kwargs where
  "no_kw =
     \<lparr>kw_select = None, kw_exclude = None, kw_unit = None, kw_sparse = None,
      kw_sig_digits = None, kw_group_by_id = None, kw_rm_nulls = None,
      kw_time_since_start = None, kw_transform = None, kw_before = None, kw_after = None\<rparr>"

text \<open>The object \<open>ContentMetricTimeseries(org, [7])\<close> makes of this catalog.\<close>

definition ex_self :: tsquery where
  "ex_self =
     \<lparr>cls = ContentMetricTimeseries, org = ex_org, ids = [7], select = Scalar ''*'',
      exclude = ListOf [], unit = ''hour'', sparse = True, sig_digits = 2,
      group_by_id = True, rm_nulls = False, time_since_start = False, transform = None,
      before = None, after = None, metrics = 0, computed_metrics = Suc 0,
      filter_dates = False\<rparr>"

section \<open>Every statement and query returns its text\<close>

lemma bindr_Inr [simp]: "bindr (Inr x) f = f x"
  by (simp add: bindr_def)

lemma bindr_Inl [simp]: "bindr (Inl e) f = Inl e"
  by (simp add: bindr_def)

lemmas format_simps = pyformat_def lookup_field_def is_digit_def index_of_def

lemma ids_array_eq: "ids_array self = Inr (ids_array_text self)"
  by (simp add: ids_array_def ids_array_text_def format_simps)

lemma date_filter_eq: "date_filter self = Inr (date_filter_text self)"
  by (simp add: date_filter_def date_filter_text_def date_clause_text_def format_simps Let_def)

lemma query_kw_eq: "query_kw self = Inr (query_kw_map self)"
  by (simp add: query_kw_def query_kw_map_def ids_array_eq date_filter_eq)

lemma add_kw_eq: "add_kw self kw = Inr (query_kw_map self ++ kw)"
  by (simp add: add_kw_def query_kw_eq)

lemmas kw_simps = add_kw_eq query_kw_map_def metric_kw_def

lemma select_json_eq: "select_json self m = Inr (json_text m)"
  by (simp add: select_json_def kw_simps json_text_def format_simps)

lemma select_simple_eq: "select_simple self m = Inr (simple_text m)"
  by (simp add: select_simple_def select_json_eq kw_simps simple_text_def format_simps)

lemma select_cumulative_to_count_eq:
  "select_cumulative_to_count self m = Inr (cumulative_to_count_text self m)"
  by (simp add: select_cumulative_to_count_def select_json_eq kw_simps
      cumulative_to_count_text_def format_simps)

lemma select_agg_eq: "select_agg self m = Inr (agg_text self m)"
  by (simp add: select_agg_def kw_simps agg_text_def format_simps)

lemma select_non_sparse_eq: "select_non_sparse self m = Inr (non_sparse_text m)"
  by (simp add: select_non_sparse_def kw_simps non_sparse_text_def format_simps)

lemma select_cumulative_eq: "select_cumulative self m = Inr (cumulative_text self m)"
  by (simp add: select_cumulative_def kw_simps cumulative_text_def partition_text_def
      format_simps)

lemma collect_Inr: "(\<And>x. x \<in> set xs \<Longrightarrow> f x = Inr (g x)) \<Longrightarrow> collect f xs = Inr (map g xs)"
  by (induction xs) simp_all

lemma init_select_eq: "init_select s self = Inr (init_select_text s self)"
proof -
  have "collect (\<lambda>(n, m). if type m = ''cumulative''
                           then select_cumulative_to_count self m
                           else select_simple self m) (s (metrics self)) =
        Inr (map (\<lambda>(n, m). if type m = ''cumulative'' then cumulative_to_count_text self m
                             else simple_text m) (s (metrics self)))"
    by (rule collect_Inr) (auto simp: select_cumulative_to_count_eq select_simple_eq)
  then show ?thesis
    by (simp add: init_select_def init_select_text_def)
qed

lemma agg_select_eq: "agg_select s self = Inr (agg_select_text s self)"
proof -
  have "collect (\<lambda>(n, m). select_agg self m) (s (metrics self)) =
        Inr (map (\<lambda>(n, m). agg_text self m) (s (metrics self)))"
    by (rule collect_Inr) (auto simp: select_agg_eq)
  then show ?thesis
    by (simp add: agg_select_def agg_select_text_def)
qed

lemma non_sparse_select_eq: "non_sparse_select s self = Inr (non_sparse_select_text s self)"
proof -
  have "collect (\<lambda>(n, m). select_non_sparse self m) (s (metrics self)) =
        Inr (map (\<lambda>(n, m). non_sparse_text m) (s (metrics self)))"
    by (rule collect_Inr) (auto simp: select_non_sparse_eq)
  then show ?thesis
    by (simp add: non_sparse_select_def non_sparse_select_text_def)
qed

lemma cumulative_select_eq: "cumulative_select s self = Inr (cumulative_select_text s self)"
proof -
  have "collect (\<lambda>(n, m). if agg_fx m = ''sum'' then select_cumulative self m else Inr n)
          (s (metrics self)) =
        Inr (map (\<lambda>(n, m). if agg_fx m = ''sum'' then cumulative_text self m else n)
               (s (metrics self)))"
    by (rule collect_Inr) (auto simp: select_cumulative_eq)
  then show ?thesis
    by (simp add: cumulative_select_def cumulative_select_text_def)
qed

lemma init_kw_eq:
  "init_kw s self =
     Inr (query_kw_map self ++
          [''select'' \<mapsto> init_select_text s self, ''init_id_col'' \<mapsto> id_col_comma self])"
  by (simp add: init_kw_def init_select_eq add_kw_eq id_col_comma_def format_simps)

lemma init_query_eq: "init_query s self = Inr (init_query_text s self)"
  by (simp add: init_query_def init_kw_eq query_kw_map_def init_query_text_def format_simps)

lemma agg_kw_eq:
  "agg_kw s self =
     Inr (query_kw_map self ++
          [''select'' \<mapsto> agg_select_text s self,
           ''init_query'' \<mapsto> init_query_text s self,
           ''agg_id_col'' \<mapsto> id_col_comma self,
           ''agg_order_by'' \<mapsto> (if group_by_id self then '','' @ id_col (cls self) else [])])"
  by (simp add: agg_kw_def agg_select_eq init_query_eq add_kw_eq id_col_comma_def format_simps)

lemma agg_query_eq: "agg_query s self = Inr (agg_query_text s self)"
  by (simp add: agg_query_def agg_kw_eq query_kw_map_def agg_query_text_def format_simps)

lemma cal_kw_eq:
  "cal_kw self =
     Inr (query_kw_map self ++
          [''before'' \<mapsto> cal_bound_text (before self),
           ''after'' \<mapsto> cal_bound_text (after self)])"
  by (simp add: cal_kw_def add_kw_eq cal_bound_text_def format_simps)

lemma cal_eq: "cal self = Inr (cal_text self)"
  by (simp add: cal_def cal_kw_eq query_kw_map_def cal_text_def format_simps)

lemma non_sparse_kw_eq:
  "non_sparse_kw s self =
     Inr (query_kw_map self ++
          [''select'' \<mapsto> non_sparse_select_text s self,
           ''init_q'' \<mapsto> (if unit self = min_unit then init_query_text s self
                              else agg_query_text s self),
           ''cal'' \<mapsto> cal_text self,
           ''cal_id_join'' \<mapsto>
              (if group_by_id self
               then ''AND cal.'' @ id_col (cls self) @ '' = '' @ sparse_table @ ''.'' @
                    id_col (cls self)
               else []),
           ''cal_id_col1'' \<mapsto> (if group_by_id self then id_col (cls self) @ '',\<newline>'' else []),
           ''cal_id_col2'' \<mapsto>
              (if group_by_id self then ''cal.'' @ id_col (cls self) @ '',\<newline>'' else []),
           ''cal_order_by'' \<mapsto> (if group_by_id self then '', cal.'' @ id_col (cls self) else []),
           ''cal_date_select'' \<mapsto>
              (if group_by_id self then date_col else ''distinct('' @ date_col @ '')'')])"
  by (simp add: non_sparse_kw_def init_query_eq agg_query_eq non_sparse_select_eq cal_eq
      add_kw_eq format_simps)

lemma non_sparse_query_eq: "non_sparse_query s self = Inr (non_sparse_query_text s self)"
  by (simp add: non_sparse_query_def non_sparse_kw_eq query_kw_map_def
      non_sparse_query_text_def format_simps)

lemma cumulative_kw_eq:
  "cumulative_kw s self =
     Inr (query_kw_map self ++
          [''select'' \<mapsto> cumulative_select_text s self,
           ''init_q'' \<mapsto>
              (if sparse self \<and> unit self = ''hour'' \<and> group_by_id self
               then init_query_text s self
               else if sparse self then agg_query_text s self
               else non_sparse_query_text s self),
           ''_id_col'' \<mapsto> id_col_comma self])"
  by (simp add: cumulative_kw_def init_query_eq agg_query_eq non_sparse_query_eq
      cumulative_select_eq add_kw_eq id_col_comma_def format_simps)

lemma cumulative_query_eq: "cumulative_query s self = Inr (cumulative_query_text s self)"
  by (simp add: cumulative_query_def cumulative_kw_eq query_kw_map_def
      cumulative_query_text_def format_simps)

lemma query_eq:
  "query s self =
     (if sparse self \<and> unit self = min_unit \<and> \<not> truthy (transform self)
      then Inr (Some (init_query_text s self))
      else if sparse self \<and> \<not> truthy (transform self) then Inr (Some (agg_query_text s self))
      else if \<not> sparse self \<and> \<not> truthy (transform self)
      then Inr (Some (non_sparse_query_text s self))
      else if transform self = Some ''cumulative'' then Inr (Some (cumulative_query_text s self))
      else Inr None)"
  by (simp add: query_def init_query_eq agg_query_eq non_sparse_query_eq cumulative_query_eq)

section \<open>The removal loops narrow the dict in place\<close>

lemma keys_filter: "keys (filter (\<lambda>(k, v). P k) d) = filter P (keys d)"
  by (induction d) (auto simp: keys_def)

lemma dict_pop_present:
  "n \<in> set (keys d) \<Longrightarrow> dict_pop n d = Inr (filter (\<lambda>(k, v). k \<noteq> n) d)"
  by (simp add: dict_pop_def)

lemma pop_each_filter:
  "distinct ns \<Longrightarrow> set ns \<subseteq> set (keys (s a)) \<Longrightarrow>
   pop_each p ns a s = Inr (s(a := filter (\<lambda>(k, v). \<not> (p k \<and> k \<in> set ns)) (s a)))"
proof (induction ns arbitrary: s)
  case Nil
  then show ?case by simp
next
  case (Cons n ns)
  show ?case
  proof (cases "p n")
    case True
    let ?d = "filter (\<lambda>(k, v). k \<noteq> n) (s a)"
    let ?s = "s(a := ?d)"
    from Cons.prems have n: "n \<in> set (keys (s a))" and d: "distinct ns" and nn: "n \<notin> set ns"
      and sub: "set ns \<subseteq> set (keys (s a))" by auto
    have sub': "set ns \<subseteq> set (keys (?s a))"
      using sub nn by (auto simp: keys_filter)
    have "pop_each p (n # ns) a s = pop_each p ns a ?s"
      using True n by (simp add: dict_pop_present)
    also have "\<dots> = Inr (?s(a := filter (\<lambda>(k, v). \<not> (p k \<and> k \<in> set ns)) (?s a)))"
      using Cons.IH [of ?s] d sub' by blast
    also have "?s(a := filter (\<lambda>(k, v). \<not> (p k \<and> k \<in> set ns)) (?s a)) =
               s(a := filter (\<lambda>(k, v). \<not> (p k \<and> k \<in> set (n # ns))) (s a))"
      using True by (auto intro!: filter_cong)
    finally show ?thesis .
  next
    case False
    from Cons.prems have d: "distinct ns" and sub: "set ns \<subseteq> set (keys (s a))" by auto
    have "pop_each p (n # ns) a s = pop_each p ns a s"
      using False by simp
    also have "\<dots> = Inr (s(a := filter (\<lambda>(k, v). \<not> (p k \<and> k \<in> set ns)) (s a)))"
      using Cons.IH [of s] d sub by blast
    also have "filter (\<lambda>(k, v). \<not> (p k \<and> k \<in> set ns)) (s a) =
               filter (\<lambda>(k, v). \<not> (p k \<and> k \<in> set (n # ns))) (s a)"
      using False by (auto intro!: filter_cong)
    finally show ?thesis .
  qed
qed

lemma pop_loop_eq:
  assumes "distinct (keys (s a))"
  shows "pop_loop p a s = Inr (s(a := filter (\<lambda>(k, v). \<not> p k) (s a)))"
proof -
  have "filter (\<lambda>(k, v). \<not> (p k \<and> k \<in> set (keys (s a)))) (s a) = filter (\<lambda>(k, v). \<not> p k) (s a)"
    by (rule filter_cong) (force simp: keys_def)+
  with pop_each_filter [where ns = "keys (s a)" and s = s and a = a and p = p] assms
  show ?thesis
    by (simp add: pop_loop_def)
qed


lemma distinct_keys_filter: "distinct (keys d) \<Longrightarrow> distinct (keys (filter (\<lambda>(k, v). P k) d))"
  by (simp add: keys_filter)

lemma pop_both:
  assumes a: "distinct (keys (s a))" and b: "distinct (keys (s b))"
  shows "bindr (pop_loop p a s) (\<lambda>s1. bindr (pop_loop p b s1) f) =
         f (s(a := filter (\<lambda>(k, v). \<not> p k) (s a), b := filter (\<lambda>(k, v). \<not> p k) (s b)))"
proof -
  let ?F = "filter (\<lambda>(k, v). \<not> p k)"
  let ?s1 = "s(a := ?F (s a))"
  have 1: "pop_loop p a s = Inr ?s1"
    using a by (rule pop_loop_eq)
  have "distinct (keys (?s1 b))"
    using a b by (simp add: distinct_keys_filter)
  then have 2: "pop_loop p b ?s1 = Inr (?s1(b := ?F (?s1 b)))"
    by (rule pop_loop_eq)
  have 3: "?s1(b := ?F (?s1 b)) = s(a := ?F (s a), b := ?F (s b))"
    by (cases "a = b") simp_all
  show ?thesis
    by (simp add: 1 2 3)
qed

lemma filter_True_pair: "filter (\<lambda>(k, v). True) d = d"
  by (induction d) auto

lemma select_metrics_eq:
  assumes a: "distinct (keys (s (metrics self)))"
    and b: "distinct (keys (s (computed_metrics self)))"
  shows "select_metrics self s =
     Inr (self\<lparr>select := (if select self = Scalar ''*'' then select self
                            else ListOf (as_list (select self))),
               exclude := ListOf (as_list (exclude self))\<rparr>,
          s(metrics self := narrowed (select self) (exclude self) (s (metrics self)),
            computed_metrics self :=
              narrowed (select self) (exclude self) (s (computed_metrics self))))"
proof -
  let ?A = "metrics self" and ?B = "computed_metrics self"
  let ?sel = "as_list (select self)" and ?exc = "as_list (exclude self)"
  let ?F1 = "filter (\<lambda>(k, v :: metric). k \<in> set ?sel)"
  let ?F2 = "filter (\<lambda>(k, v :: metric). k \<notin> set ?exc)"
  let ?self2 = "self\<lparr>select := (if select self = Scalar ''*'' then select self
                            else ListOf (as_list (select self))),
               exclude := ListOf (as_list (exclude self))\<rparr>"
  have F2: "?exc = [] \<Longrightarrow> ?F2 d = d" for d
    by (simp add: filter_True_pair)
  show ?thesis
  proof (cases "select self = Scalar ''*''")
    case True
    have n: "narrowed (Scalar ''*'') (exclude self) d = ?F2 d" for d
      by (simp add: narrowed_def keeps_def)
    have self2: "?self2 = self\<lparr>exclude := ListOf ?exc\<rparr>"
      unfolding if_P [OF True] by simp
    show ?thesis
    proof (cases "?exc = []")
      case e: True
      show ?thesis
        unfolding self2 using True e by (simp add: select_metrics_def Let_def n F2)
    next
      case e: False
      show ?thesis
        unfolding self2 using True e a b by (simp add: select_metrics_def Let_def n pop_both)
    qed
  next
    case False
    have n: "narrowed (select self) (exclude self) d = ?F2 (?F1 d)" for d
      using False by (simp add: narrowed_def keeps_def) (rule filter_cong, auto)
    let ?s2 = "s(?A := ?F1 (s ?A), ?B := ?F1 (s ?B))"
    have s2A: "?s2 ?A = ?F1 (s ?A)" and s2B: "?s2 ?B = ?F1 (s ?B)"
      by (cases "?A = ?B"; simp)+
    have d2: "distinct (keys (?s2 ?A))" "distinct (keys (?s2 ?B))"
      unfolding s2A s2B using a b by (simp_all add: distinct_keys_filter)
    have fin: "?s2(?A := ?F2 (?s2 ?A), ?B := ?F2 (?s2 ?B)) =
               s(?A := ?F2 (?F1 (s ?A)), ?B := ?F2 (?F1 (s ?B)))"
      unfolding s2A s2B by (cases "?A = ?B") (simp_all add: fun_upd_twist)
    have st1: "bindr (pop_loop (\<lambda>n. n \<notin> set ?sel) ?A s)
                 (\<lambda>s1. bindr (pop_loop (\<lambda>n. n \<notin> set ?sel) ?B s1) f) = f ?s2" for f
      using pop_both [where s = s and a = ?A and b = ?B and p = "\<lambda>n. n \<notin> set ?sel" and f = f]
        a b by simp
    have st2: "bindr (pop_loop (\<lambda>n. n \<in> set ?exc) ?A ?s2)
                 (\<lambda>s1. bindr (pop_loop (\<lambda>n. n \<in> set ?exc) ?B s1) f) =
               f (?s2(?A := ?F2 (?s2 ?A), ?B := ?F2 (?s2 ?B)))" for f
      using pop_both [where s = ?s2 and a = ?A and b = ?B and p = "\<lambda>n. n \<in> set ?exc" and f = f]
        d2 by simp
    show ?thesis
    proof (cases "?exc = []")
      case e: True
      have "s(?A := ?F2 (?F1 (s ?A)), ?B := ?F2 (?F1 (s ?B))) = ?s2"
        by (simp only: F2 [OF e])
      then show ?thesis
        using False e by (simp add: select_metrics_def Let_def n st1)
    next
      case e: False
      show ?thesis
        using False e by (simp add: select_metrics_def Let_def n st1 st2 fin)
    qed
  qed
qed

section \<open>What the constructor returns\<close>

lemma format_dates_fields:
  "cls (format_dates q) = cls q" "org (format_dates q) = org q" "ids (format_dates q) = ids q"
  "select (format_dates q) = select q" "exclude (format_dates q) = exclude q"
  "unit (format_dates q) = unit q" "sparse (format_dates q) = sparse q"
  "sig_digits (format_dates q) = sig_digits q" "group_by_id (format_dates q) = group_by_id q"
  "transform (format_dates q) = transform q" "before (format_dates q) = before q"
  "after (format_dates q) = after q" "metrics (format_dates q) = metrics q"
  "computed_metrics (format_dates q) = computed_metrics q"
  "filter_dates (format_dates q) = (truthy (before q) \<or> truthy (after q))"
  by (cases "before q"; cases "after q";
      simp add: format_dates_def format_date_def Let_def truthy_def)+

lemma constructed_fields:
  "cls (constructed c og idv kw) = c"
  "ids (constructed c og idv kw) = as_list idv"
  "unit (constructed c og idv kw) = kw_get (kw_unit kw) min_unit"
  "sparse (constructed c og idv kw) = kw_get (kw_sparse kw) True"
  "sig_digits (constructed c og idv kw) = kw_get (kw_sig_digits kw) 2"
  "group_by_id (constructed c og idv kw) = kw_get (kw_group_by_id kw) True"
  "transform (constructed c og idv kw) = kw_transform kw"
  "before (constructed c og idv kw) = kw_before kw"
  "after (constructed c og idv kw) = kw_after kw"
  "metrics (constructed c og idv kw) = metrics_attr c og"
  "computed_metrics (constructed c og idv kw) = computed_metrics_attr c og"
  "filter_dates (constructed c og idv kw) = (truthy (kw_before kw) \<or> truthy (kw_after kw))"
  by (simp_all add: constructed_def format_dates_fields)

lemma TSQuery_init_eq:
  assumes "distinct (keys (s (metrics_attr c og)))"
    and "distinct (keys (s (computed_metrics_attr c og)))"
  shows "TSQuery_init c s og idv kw = Inr (constructed c og idv kw, narrowed_store c og kw s)"
  using assms
  by (simp add: TSQuery_init_def Let_def select_metrics_eq constructed_def narrowed_store_def)

section \<open>The compiler reads the base dict only\<close>

lemma select_lists_store_cong:
  assumes "s (metrics self) = t (metrics self)"
  shows "init_select s self = init_select t self" "agg_select s self = agg_select t self"
    "non_sparse_select s self = non_sparse_select t self"
    "cumulative_select s self = cumulative_select t self"
  using assms
  by (simp_all add: init_select_def agg_select_def non_sparse_select_def cumulative_select_def)

lemma queries_store_cong:
  assumes "s (metrics self) = t (metrics self)"
  shows "init_query s self = init_query t self" "agg_query s self = agg_query t self"
    "non_sparse_query s self = non_sparse_query t self"
    "cumulative_query s self = cumulative_query t self"
    "query s self = query t self"
proof -
  note sl = select_lists_store_cong [where s = s and t = t and self = self, OF assms]
  show i: "init_query s self = init_query t self"
    by (simp add: init_query_def init_kw_def sl)
  show a: "agg_query s self = agg_query t self"
    by (simp add: agg_query_def agg_kw_def sl i)
  show n: "non_sparse_query s self = non_sparse_query t self"
    by (simp add: non_sparse_query_def non_sparse_kw_def sl i a)
  show c: "cumulative_query s self = cumulative_query t self"
    by (simp add: cumulative_query_def cumulative_kw_def sl i a n)
  show "query s self = query t self"
    by (simp add: query_def i a n c)
qed

lemma narrowed_without:
  "n \<in> set (as_list exc) \<Longrightarrow>
   narrowed sel exc (filter (\<lambda>(k, v). k \<noteq> n) d) = narrowed sel exc d"
  unfolding narrowed_def filter_filter
  by (rule filter_cong) (auto simp: keeps_def)

lemma narrowed_keys: "n \<in> set (as_list exc) \<Longrightarrow> n \<notin> set (keys (narrowed sel exc d))"
  by (auto simp: narrowed_def keys_def keeps_def)

lemma narrowed_store_metrics:
  "narrowed_store c og kw s (metrics_attr c og) =
     narrowed (kw_get (kw_select kw) (Scalar ''*'')) (kw_get (kw_exclude kw) (ListOf []))
       (s (metrics_attr c og))"
  "narrowed_store c og kw s (computed_metrics_attr c og) =
     narrowed (kw_get (kw_select kw) (Scalar ''*'')) (kw_get (kw_exclude kw) (ListOf []))
       (s (computed_metrics_attr c og))"
  by (cases "metrics_attr c og = computed_metrics_attr c og"; simp add: narrowed_store_def)+

lemma compile_eq:
  assumes "distinct (keys (s (metrics_attr c og)))"
    and "distinct (keys (s (computed_metrics_attr c og)))"
  shows "compile c s og idv kw = query (narrowed_store c og kw s) (constructed c og idv kw)"
  using assms by (simp add: compile_def TSQuery_init_eq)



section \<open>Scalar arguments\<close>

lemma select_metrics_scalar_exclude:
  "exclude self = Scalar x \<Longrightarrow>
   select_metrics self s = select_metrics (self\<lparr>exclude := ListOf [x]\<rparr>) s"
  by (auto simp: select_metrics_def Let_def as_list_def bindr_def split: sum.splits)

lemma select_metrics_scalar_select:
  "select self = Scalar x \<Longrightarrow> x \<noteq> ''*'' \<Longrightarrow>
   select_metrics self s = select_metrics (self\<lparr>select := ListOf [x]\<rparr>) s"
  by (simp add: select_metrics_def Let_def as_list_def)

section \<open>The claims\<close>

subsection \<open>C1: which query is the whole query\<close>

text \<open>
  C1. \<open>query\<close> takes the first branch that matches. Sparse, at the minimum unit and
  without a transform, the whole query is the init query alone, which reads from the table
  and has no query inside. Sparse without a transform at another unit, it is the aggregate
  query, whose \<open>FROM\<close> is the init query. Not sparse and without a transform, it is the
  non-sparse query. With the transform \<open>cumulative\<close> it is the cumulative query, whose
  \<open>FROM\<close> is the init query when the query is sparse, hourly and grouped by id, the
  aggregate query when it is sparse at another unit, and the non-sparse query when it is not
  sparse; sparse and hourly but not grouped by id, its \<open>FROM\<close> is the aggregate query
  too. With any other transform no branch matches and \<open>query\<close> returns \<open>None\<close>.
\<close>

theorem query_stage_selection:
  "\<exists>ia df isel asel csel init agg dens.
     ids_array self = Inr ia \<and> date_filter self = Inr df \<and>
     init_select s self = Inr isel \<and> agg_select s self = Inr asel \<and>
     cumulative_select s self = Inr csel \<and>
     init_query s self = Inr init \<and> agg_query s self = Inr agg \<and>
     non_sparse_query s self = Inr dens \<and>
     init =
     ''SELECT\<newline>                    '' @ (if group_by_id self then id_col (cls self) @
     '','' else []) @ ''\<newline>                    date_trunc('' @ [CHR 0x27] @ unit self @
     ''', '' @ date_col @ '') as '' @ date_col @ '',\<newline>                    '' @ isel @
     ''\<newline>                FROM '' @ table (cls self) @
     ''\<newline>                    WHERE '' @ id_col (cls self) @ '' IN (select unnest('' @ ia @
     ''))\<newline>                    '' @ df @ ''\<newline>            '' \<and>
     agg =
     ''SELECT '' @ (if group_by_id self then id_col (cls self) @ '','' else []) @
     ''\<newline>                    date_trunc('' @ [CHR 0x27] @ unit self @ ''', '' @ date_col @
     '') as '' @ date_col @ '',\<newline>                    '' @ asel @
     ''\<newline>                FROM ('' @ init @ '') t1\<newline>                GROUP BY '' @
     (if group_by_id self then id_col (cls self) @ '','' else []) @ '' '' @ date_col @
     ''\<newline>                ORDER BY '' @ date_col @ '' '' @
     (if group_by_id self then '','' @ id_col (cls self) else []) @
     '' ASC\<newline>            '' \<and>
     (let cumulative = (\<lambda>inner.
     '' SELECT\<newline>                    '' @ date_col @ '',\<newline>                    '' @
     (if group_by_id self then id_col (cls self) @ '','' else []) @
     ''\<newline>                    '' @ csel @
     ''\<newline>                FROM (\<newline>                    '' @ inner @
     ''\<newline>                ) t2\<newline>            '')
      in
     (sparse self \<and> unit self = min_unit \<and> \<not> truthy (transform self) \<longrightarrow>
        query s self = Inr (Some init)) \<and>
     (sparse self \<and> unit self \<noteq> min_unit \<and> \<not> truthy (transform self) \<longrightarrow>
        query s self = Inr (Some agg)) \<and>
     (\<not> sparse self \<and> \<not> truthy (transform self) \<longrightarrow>
        query s self = Inr (Some dens)) \<and>
     (transform self = Some ''cumulative'' \<and> sparse self \<and> unit self = ''hour'' \<and>
      group_by_id self \<longrightarrow>
        query s self = Inr (Some (cumulative init))) \<and>
     (transform self = Some ''cumulative'' \<and> sparse self \<and> unit self \<noteq> ''hour'' \<longrightarrow>
        query s self = Inr (Some (cumulative agg))) \<and>
     (transform self = Some ''cumulative'' \<and> \<not> sparse self \<longrightarrow>
        query s self = Inr (Some (cumulative dens))) \<and>
     (transform self = Some ''cumulative'' \<and> sparse self \<and> unit self = ''hour'' \<and>
      \<not> group_by_id self \<longrightarrow>
        query s self = Inr (Some (cumulative agg))) \<and>
     (truthy (transform self) \<and> transform self \<noteq> Some ''cumulative'' \<longrightarrow>
        query s self = Inr None))"
proof -
  have q1: "query s self = Inr (Some (init_query_text s self))"
    if "sparse self" "unit self = min_unit" "\<not> truthy (transform self)"
    using that by (simp only: query_eq simp_thms if_True)
  have q2: "query s self = Inr (Some (agg_query_text s self))"
    if "sparse self" "unit self \<noteq> min_unit" "\<not> truthy (transform self)"
    using that by (simp only: query_eq simp_thms if_True if_False)
  have q3: "query s self = Inr (Some (non_sparse_query_text s self))"
    if "\<not> sparse self" "\<not> truthy (transform self)"
    using that by (simp only: query_eq simp_thms if_True if_False)
  have q4: "query s self = Inr (Some (cumulative_query_text s self))"
    if "transform self = Some ''cumulative''"
    using that by (simp add: query_eq truthy_def)
  have c1: "cumulative_query_text s self =
     '' SELECT\<newline>                    '' @ date_col @ '',\<newline>                    '' @
     (if group_by_id self then id_col (cls self) @ '','' else []) @
     ''\<newline>                    '' @ cumulative_select_text s self @
     ''\<newline>                FROM (\<newline>                    '' @ init_query_text s self @
     ''\<newline>                ) t2\<newline>            ''"
    if "sparse self" "unit self = ''hour''" "group_by_id self"
    using that by (simp only: cumulative_query_text_def id_col_comma_def simp_thms if_True)
  have c2: "cumulative_query_text s self =
     '' SELECT\<newline>                    '' @ date_col @ '',\<newline>                    '' @
     (if group_by_id self then id_col (cls self) @ '','' else []) @
     ''\<newline>                    '' @ cumulative_select_text s self @
     ''\<newline>                FROM (\<newline>                    '' @ agg_query_text s self @
     ''\<newline>                ) t2\<newline>            ''"
    if "sparse self" "unit self \<noteq> ''hour''"
    using that by (simp only: cumulative_query_text_def id_col_comma_def simp_thms if_True if_False)
  have c3: "cumulative_query_text s self =
     '' SELECT\<newline>                    '' @ date_col @ '',\<newline>                    '' @
     (if group_by_id self then id_col (cls self) @ '','' else []) @
     ''\<newline>                    '' @ cumulative_select_text s self @
     ''\<newline>                FROM (\<newline>                    '' @
     non_sparse_query_text s self @ ''\<newline>                ) t2\<newline>            ''"
    if "\<not> sparse self"
    using that by (simp only: cumulative_query_text_def id_col_comma_def simp_thms if_True if_False)
  have c4: "cumulative_query_text s self =
     '' SELECT\<newline>                    '' @ date_col @ '',\<newline>                    '' @
     (if group_by_id self then id_col (cls self) @ '','' else []) @
     ''\<newline>                    '' @ cumulative_select_text s self @
     ''\<newline>                FROM (\<newline>                    '' @ agg_query_text s self @
     ''\<newline>                ) t2\<newline>            ''"
    if "sparse self" "unit self = ''hour''" "\<not> group_by_id self"
    using that by (simp only: cumulative_query_text_def id_col_comma_def simp_thms if_True if_False)
  have q5: "query s self = Inr None"
    if "truthy (transform self)" "transform self \<noteq> Some ''cumulative''"
    using that by (simp only: query_eq simp_thms if_True if_False)
  show ?thesis
    apply (rule exI [of _ "ids_array_text self"])
    apply (rule exI [of _ "date_filter_text self"])
    apply (rule exI [of _ "init_select_text s self"])
    apply (rule exI [of _ "agg_select_text s self"])
    apply (rule exI [of _ "cumulative_select_text s self"])
    apply (rule exI [of _ "init_query_text s self"])
    apply (rule exI [of _ "agg_query_text s self"])
    apply (rule exI [of _ "non_sparse_query_text s self"])
    apply (simp only: Let_def)
    apply (intro conjI impI)
                 apply (rule ids_array_eq date_filter_eq init_select_eq agg_select_eq
        cumulative_select_eq init_query_eq agg_query_eq non_sparse_query_eq)+
         apply (simp only: init_query_text_def id_col_comma_def)
        apply (simp only: agg_query_text_def id_col_comma_def)
       apply (erule conjE)+
       apply (rule q1; assumption)
      apply (erule conjE)+
      apply (rule q2; assumption)
     apply (erule conjE)+
     apply (rule q3; assumption)
    apply (erule conjE)+
    apply (simp only: q4 c1 simp_thms)
    apply (erule conjE)+
    apply (simp only: q4 c2 simp_thms)
    apply (erule conjE)+
    apply (simp only: q4 c3 simp_thms)
    apply (erule conjE)+
    apply (simp only: q4 c4 simp_thms)
    apply (erule conjE)+
    apply (rule q5; assumption)
    done
qed

theorem query_stage_selection_witness:
  "(sparse ex_self \<and> unit ex_self = min_unit \<and> \<not> truthy (transform ex_self) \<and>
    query ex_store ex_self = map_sum id Some (init_query ex_store ex_self)) \<and>
   (sparse (ex_self\<lparr>unit := ''day''\<rparr>) \<and> unit (ex_self\<lparr>unit := ''day''\<rparr>) \<noteq> min_unit \<and>
    \<not> truthy (transform (ex_self\<lparr>unit := ''day''\<rparr>)) \<and>
    query ex_store (ex_self\<lparr>unit := ''day''\<rparr>) =
      map_sum id Some (agg_query ex_store (ex_self\<lparr>unit := ''day''\<rparr>))) \<and>
   (\<not> sparse (ex_self\<lparr>sparse := False\<rparr>) \<and> \<not> truthy (transform (ex_self\<lparr>sparse := False\<rparr>)) \<and>
    query ex_store (ex_self\<lparr>sparse := False\<rparr>) =
      map_sum id Some (non_sparse_query ex_store (ex_self\<lparr>sparse := False\<rparr>))) \<and>
   query ex_store (ex_self\<lparr>transform := Some ''cumulative''\<rparr>) =
     map_sum id Some (cumulative_query ex_store (ex_self\<lparr>transform := Some ''cumulative''\<rparr>)) \<and>
   query ex_store (ex_self\<lparr>transform := Some ''cumulative'', unit := ''day''\<rparr>) =
     map_sum id Some
       (cumulative_query ex_store (ex_self\<lparr>transform := Some ''cumulative'', unit := ''day''\<rparr>)) \<and>
   query ex_store (ex_self\<lparr>transform := Some ''cumulative'', sparse := False\<rparr>) =
     map_sum id Some
       (cumulative_query ex_store (ex_self\<lparr>transform := Some ''cumulative'', sparse := False\<rparr>)) \<and>
   query ex_store (ex_self\<lparr>transform := Some ''cumulative'', group_by_id := False\<rparr>) =
     map_sum id Some
       (cumulative_query ex_store
          (ex_self\<lparr>transform := Some ''cumulative'', group_by_id := False\<rparr>)) \<and>
   (truthy (transform (ex_self\<lparr>transform := Some ''median''\<rparr>)) \<and>
    transform (ex_self\<lparr>transform := Some ''median''\<rparr>) \<noteq> Some ''cumulative'' \<and>
    query ex_store (ex_self\<lparr>transform := Some ''median''\<rparr>) = Inr None)"
proof -
  have d1: "query s self = map_sum id Some (init_query s self)"
    if "sparse self \<and> unit self = min_unit \<and> \<not> truthy (transform self)" for s self
    using query_stage_selection [where s = s and self = self] that
    unfolding Let_def
    by (elim exE conjE) (simp only: simp_thms map_sum.simps id_apply)
  have d2: "query s self = map_sum id Some (agg_query s self)"
    if "sparse self \<and> unit self \<noteq> min_unit \<and> \<not> truthy (transform self)" for s self
    using query_stage_selection [where s = s and self = self] that
    unfolding Let_def
    by (elim exE conjE) (simp only: simp_thms map_sum.simps id_apply)
  have d3: "query s self = map_sum id Some (non_sparse_query s self)"
    if "\<not> sparse self \<and> \<not> truthy (transform self)" for s self
    using query_stage_selection [where s = s and self = self] that
    unfolding Let_def
    by (elim exE conjE) (simp only: simp_thms map_sum.simps id_apply)
  have d4: "query s self = map_sum id Some (cumulative_query s self)"
    if "transform self = Some ''cumulative''" "sparse self" "unit self = ''hour''"
      "group_by_id self" for s self
    using query_stage_selection [where s = s and self = self] that
    unfolding Let_def
    by (elim exE conjE)
      (simp only: cumulative_query_eq cumulative_query_text_def id_col_comma_def
        init_query_eq cumulative_select_eq sum.inject simp_thms if_True map_sum.simps id_apply)
  have d5: "query s self = map_sum id Some (cumulative_query s self)"
    if "transform self = Some ''cumulative''" "sparse self" "unit self \<noteq> ''hour''" for s self
    using query_stage_selection [where s = s and self = self] that
    unfolding Let_def
    by (elim exE conjE)
      (simp only: cumulative_query_eq cumulative_query_text_def id_col_comma_def
        agg_query_eq cumulative_select_eq sum.inject simp_thms if_True if_False map_sum.simps
        id_apply)
  have d6: "query s self = map_sum id Some (cumulative_query s self)"
    if "transform self = Some ''cumulative''" "\<not> sparse self" for s self
    using query_stage_selection [where s = s and self = self] that
    unfolding Let_def
    by (elim exE conjE)
      (simp only: cumulative_query_eq cumulative_query_text_def id_col_comma_def
        non_sparse_query_eq cumulative_select_eq sum.inject simp_thms if_True if_False
        map_sum.simps id_apply)
  have d7: "query s self = map_sum id Some (cumulative_query s self)"
    if "transform self = Some ''cumulative''" "sparse self" "unit self = ''hour''"
      "\<not> group_by_id self" for s self
    using query_stage_selection [where s = s and self = self] that
    unfolding Let_def
    by (elim exE conjE)
      (simp only: cumulative_query_eq cumulative_query_text_def id_col_comma_def
        agg_query_eq cumulative_select_eq sum.inject simp_thms if_True if_False map_sum.simps
        id_apply)
  have d8: "query s self = Inr None"
    if "truthy (transform self) \<and> transform self \<noteq> Some ''cumulative''" for s self
    using query_stage_selection [where s = s and self = self] that
    unfolding Let_def
    by (elim exE conjE) (simp only: simp_thms)
  show ?thesis
    by (intro conjI d1 d2 d3 d4 d5 d6 d7 d8)
      (simp_all add: ex_self_def min_unit_def truthy_def)
qed

subsection \<open>C2: the constructor validates nothing\<close>

text \<open>
  C2 (counterexample). An empty id list, the unit \<open>fortnight\<close> and the transform
  \<open>median\<close> are not rejected: the constructor returns its object, the ids are written as
  \<open>ARRAY[]\<close>, and \<open>query\<close> returns \<open>None\<close> for the unknown transform without raising.
  Without a transform the same empty id list and unit are compiled into a query.
\<close>

theorem constructor_rejects_counterexample:
  "TSQuery_init ContentMetricTimeseries ex_store ex_org (ListOf [])
     (no_kw\<lparr>kw_unit := Some ''fortnight'', kw_transform := Some ''median''\<rparr>) =
   Inr (ex_self\<lparr>ids := [], unit := ''fortnight'', transform := Some ''median''\<rparr>, ex_store) \<and>
   ids_array (ex_self\<lparr>ids := [], unit := ''fortnight'', transform := Some ''median''\<rparr>) =
     Inr ''ARRAY[]'' \<and>
   compile ContentMetricTimeseries ex_store ex_org (ListOf [])
     (no_kw\<lparr>kw_unit := Some ''fortnight'', kw_transform := Some ''median''\<rparr>) = Inr None \<and>
   compile ContentMetricTimeseries ex_store ex_org (ListOf [])
     (no_kw\<lparr>kw_unit := Some ''fortnight''\<rparr>) =
     map_sum id Some (agg_query ex_store (ex_self\<lparr>ids := [], unit := ''fortnight''\<rparr>)) \<and>
   \<not> isl (agg_query ex_store (ex_self\<lparr>ids := [], unit := ''fortnight''\<rparr>))"
proof -
  have d: "distinct (keys (ex_store (metrics_attr ContentMetricTimeseries ex_org)))"
    "distinct (keys (ex_store (computed_metrics_attr ContentMetricTimeseries ex_org)))"
    by (simp_all add: ex_store_def ex_org_def ContentMetricTimeseries_def keys_def)
  have s: "narrowed_store ContentMetricTimeseries ex_org
             (no_kw\<lparr>kw_unit := u, kw_transform := t\<rparr>) ex_store = ex_store" for u t
    by (simp add: narrowed_store_def narrowed_def keeps_def no_kw_def kw_get_def as_list_def
        filter_True_pair)
  have c: "constructed ContentMetricTimeseries ex_org (ListOf [])
             (no_kw\<lparr>kw_unit := Some ''fortnight'', kw_transform := t\<rparr>) =
           ex_self\<lparr>ids := [], unit := ''fortnight'', transform := t\<rparr>" for t
    by (simp add: constructed_def ex_self_def no_kw_def kw_get_def as_list_def format_dates_def
        truthy_def min_unit_def ContentMetricTimeseries_def ex_org_def)
  have s0: "narrowed_store ContentMetricTimeseries ex_org (no_kw\<lparr>kw_unit := u\<rparr>) ex_store =
            ex_store" for u
    by (simp add: narrowed_store_def narrowed_def keeps_def no_kw_def kw_get_def as_list_def
        filter_True_pair)
  have c0: "constructed ContentMetricTimeseries ex_org (ListOf [])
              (no_kw\<lparr>kw_unit := Some ''fortnight''\<rparr>) =
            ex_self\<lparr>ids := [], unit := ''fortnight''\<rparr>"
    by (simp add: constructed_def ex_self_def no_kw_def kw_get_def as_list_def format_dates_def
        truthy_def min_unit_def ContentMetricTimeseries_def ex_org_def)
  have 1: "TSQuery_init ContentMetricTimeseries ex_store ex_org (ListOf [])
       (no_kw\<lparr>kw_unit := Some ''fortnight'', kw_transform := Some ''median''\<rparr>) =
     Inr (ex_self\<lparr>ids := [], unit := ''fortnight'', transform := Some ''median''\<rparr>, ex_store)"
    by (simp only: TSQuery_init_eq [OF d] s c)
  have 2: "ids_array (ex_self\<lparr>ids := [], unit := ''fortnight'', transform := Some ''median''\<rparr>) =
     Inr ''ARRAY[]''"
    by (simp add: ids_array_eq ids_array_text_def)
  have 3: "compile ContentMetricTimeseries ex_store ex_org (ListOf [])
       (no_kw\<lparr>kw_unit := Some ''fortnight'', kw_transform := Some ''median''\<rparr>) = Inr None"
    unfolding compile_eq [OF d] s c
    by (simp add: query_eq ex_self_def truthy_def)
  have 4: "compile ContentMetricTimeseries ex_store ex_org (ListOf [])
       (no_kw\<lparr>kw_unit := Some ''fortnight''\<rparr>) =
     map_sum id Some (agg_query ex_store (ex_self\<lparr>ids := [], unit := ''fortnight''\<rparr>))"
    unfolding compile_eq [OF d] s0 c0
    by (simp add: query_eq agg_query_eq ex_self_def truthy_def min_unit_def)
  have 5: "\<not> isl (agg_query ex_store (ex_self\<lparr>ids := [], unit := ''fortnight''\<rparr>))"
    by (simp add: agg_query_eq)
  from 1 2 3 4 5 show ?thesis
    by (simp only: simp_thms)
qed

text \<open>
  C2 (amended). The constructor has no validation and no configuration error: for every
  id argument, also the empty list, every unit and every transform it returns its object,
  which holds the ids, the unit and the transform as they were passed. The query is
  compiled when the transform is \<open>None\<close>, empty or \<open>cumulative\<close>; for any other
  transform \<open>query\<close> returns \<open>None\<close> and raises nothing. The dicts have each key once.
\<close>

theorem constructor_accepts_every_configuration:
  assumes "distinct (keys (s (metrics_attr c og)))"
    and "distinct (keys (s (computed_metrics_attr c og)))"
  shows "\<exists>self s1.
     TSQuery_init c s og idv kw = Inr (self, s1) \<and>
     ids self = as_list idv \<and>
     unit self = kw_get (kw_unit kw) min_unit \<and>
     transform self = kw_transform kw \<and>
     (if \<not> truthy (kw_transform kw) \<or> kw_transform kw = Some ''cumulative''
      then \<exists>t. compile c s og idv kw = Inr (Some t)
      else compile c s og idv kw = Inr None)"
proof -
  let ?self = "constructed c og idv kw"
  let ?s1 = "narrowed_store c og kw s"
  have init: "TSQuery_init c s og idv kw = Inr (?self, ?s1)"
    using assms by (rule TSQuery_init_eq)
  have comp: "compile c s og idv kw = query ?s1 ?self"
    using assms by (rule compile_eq)
  have q: "(if \<not> truthy (kw_transform kw) \<or> kw_transform kw = Some ''cumulative''
      then \<exists>t. query ?s1 ?self = Inr (Some t)
      else query ?s1 ?self = Inr None)"
    by (simp add: query_eq constructed_fields truthy_def)
  show ?thesis
    apply (rule exI [of _ ?self])
    apply (rule exI [of _ ?s1])
    apply (intro conjI)
        apply (rule init)
       apply (rule constructed_fields)+
    apply (simp only: comp)
    apply (rule q)
    done
qed

theorem constructor_accepts_every_configuration_witness:
  "distinct (keys (ex_store (metrics_attr OrgMetricTimeseries ex_org))) \<and>
   distinct (keys (ex_store (computed_metrics_attr OrgMetricTimeseries ex_org))) \<and>
   \<not> isl (TSQuery_init OrgMetricTimeseries ex_store ex_org (ListOf [])
            (no_kw\<lparr>kw_unit := Some ''fortnight'', kw_transform := Some ''median''\<rparr>)) \<and>
   compile OrgMetricTimeseries ex_store ex_org (ListOf [])
     (no_kw\<lparr>kw_unit := Some ''fortnight'', kw_transform := Some ''median''\<rparr>) = Inr None \<and>
   \<not> isl (compile OrgMetricTimeseries ex_store ex_org (ListOf [])
            (no_kw\<lparr>kw_unit := Some ''fortnight'', kw_transform := Some ''cumulative''\<rparr>)) \<and>
   compile OrgMetricTimeseries ex_store ex_org (ListOf [])
     (no_kw\<lparr>kw_unit := Some ''fortnight'', kw_transform := Some ''cumulative''\<rparr>) \<noteq> Inr None"
proof -
  let ?k1 = "no_kw\<lparr>kw_unit := Some ''fortnight'', kw_transform := Some ''median''\<rparr>"
  let ?k2 = "no_kw\<lparr>kw_unit := Some ''fortnight'', kw_transform := Some ''cumulative''\<rparr>"
  have d: "distinct (keys (ex_store (metrics_attr OrgMetricTimeseries ex_org)))"
    "distinct (keys (ex_store (computed_metrics_attr OrgMetricTimeseries ex_org)))"
    by (simp_all add: ex_store_def ex_org_def OrgMetricTimeseries_def keys_def)
  have t: "truthy (kw_transform ?k1)" "kw_transform ?k1 \<noteq> Some ''cumulative''"
    "kw_transform ?k2 = Some ''cumulative''"
    by (simp_all add: truthy_def)
  from constructor_accepts_every_configuration [OF d, where kw = ?k1 and idv = "ListOf []"] t
  have 1: "\<not> isl (TSQuery_init OrgMetricTimeseries ex_store ex_org (ListOf []) ?k1)"
    and 2: "compile OrgMetricTimeseries ex_store ex_org (ListOf []) ?k1 = Inr None"
    by auto
  from constructor_accepts_every_configuration [OF d, where kw = ?k2 and idv = "ListOf []"] t
  have 3: "\<not> isl (compile OrgMetricTimeseries ex_store ex_org (ListOf []) ?k2)"
    and 4: "compile OrgMetricTimeseries ex_store ex_org (ListOf []) ?k2 \<noteq> Inr None"
    by auto
  from d 1 2 3 4 show ?thesis
    by (simp only: simp_thms)
qed

subsection \<open>C3: the init stage turns cumulative metrics into per-period deltas\<close>

text \<open>
  C3. The select list of the init query has one statement per selected metric, in the
  order of the dict. For a metric of type \<open>cumulative\<close> the statement is the stored
  value minus its \<open>lag\<close> over the rows of the same entity (partition by the id
  column) in ascending order of the date column, and \<open>COALESCE\<close> falls back to the
  stored value itself where there is no earlier row. For every other type (\<open>count\<close>)
  the statement is the stored value, only named.
\<close>

theorem init_select_deltas:
  "init_select s self =
     Inr (join '',\<newline>''
       (map (\<lambda>(n, m).
          let j = ''('' @ metrics_col @ '' ->> '' @ [CHR 0x27] @ name m @ ''')::text::numeric''
          in if type m = ''cumulative''
             then ''COALESCE(\<newline>                    '' @ j @ '' - lag('' @ j @ '') OVER (PARTITION BY '' @ id_col (cls self) @ '' ORDER BY '' @ date_col @ '' ASC),\<newline>                    '' @ j @ '') as '' @ name m
             else j @ '' as '' @ name m)
          (s (metrics self))))"
  by (simp add: init_select_eq init_select_text_def cumulative_to_count_text_def
      simple_text_def json_text_def Let_def cong: if_cong)

theorem init_select_deltas_witness:
  "init_select ex_store ex_self =
     Inr (''(metrics ->> 'pageviews')::text::numeric as pageviews,\<newline>COALESCE(\<newline>                    (metrics ->> 'followers')::text::numeric - lag((metrics ->> 'followers')::text::numeric) OVER (PARTITION BY content_item_id ORDER BY datetime ASC),\<newline>                    (metrics ->> 'followers')::text::numeric) as followers'')"
  using init_select_deltas [of ex_store ex_self]
  by (simp add: ex_store_def ex_self_def pageviews_def followers_def metrics_col_def date_col_def
      ContentMetricTimeseries_def)

subsection \<open>C4: the cumulative stage sums only metrics aggregated by \<open>sum\<close>\<close>

text \<open>
  C4. In the select list of the cumulative query a metric whose aggregation function is
  \<open>sum\<close> becomes a window sum in ascending order of the date column, partitioned by
  the id column when \<open>group_by_id\<close> holds and without a partition otherwise. A metric
  with any other aggregation function is the bare column, under the key it has in the dict.
\<close>

theorem cumulative_select_running_total:
  "cumulative_select s self =
     Inr (join '',\<newline>''
       (map (\<lambda>(n, m).
          if agg_fx m = ''sum''
          then ''sum('' @ name m @ '') OVER ('' @
               (if group_by_id self then ''PARTITION BY '' @ id_col (cls self) else '''') @
               '' ORDER BY '' @ date_col @ '' ASC) AS '' @ name m
          else n)
          (s (metrics self))))"
  by (simp add: cumulative_select_eq cumulative_select_text_def cumulative_text_def
      partition_text_def cong: if_cong)

theorem cumulative_select_running_total_witness:
  "cumulative_select ex_store ex_self =
     Inr ''sum(pageviews) OVER (PARTITION BY content_item_id ORDER BY datetime ASC) AS pageviews,\<newline>followers'' \<and>
   cumulative_select ex_store (ex_self\<lparr>group_by_id := False\<rparr>) =
     Inr ''sum(pageviews) OVER ( ORDER BY datetime ASC) AS pageviews,\<newline>followers''"
  using cumulative_select_running_total [of ex_store ex_self]
    cumulative_select_running_total [of ex_store "ex_self\<lparr>group_by_id := False\<rparr>"]
  by (simp add: ex_store_def ex_self_def pageviews_def followers_def date_col_def
      ContentMetricTimeseries_def)

subsection \<open>C5: the non-sparse query fills the calendar\<close>

text \<open>
  C5. The non-sparse query names its inner query \<open>sparse\<close>: the init query when the
  unit is the minimum unit, the aggregate query otherwise. It selects from the calendar
  that the calendar function generates for the unit and the ids, \<open>LEFT JOIN\<close>s the
  inner query on the date column, and also on the id column when \<open>group_by_id\<close> holds,
  and selects every metric as \<open>COALESCE(sparse.name, 0)\<close>. When the query is not
  sparse and has no transform, this is the whole query.
\<close>

theorem non_sparse_query_densifies:
  "\<exists>inner sel ia cl dens.
     (if unit self = min_unit then init_query s self else agg_query s self) = Inr inner \<and>
     non_sparse_select s self = Inr sel \<and>
     sel = join '',\<newline>''
             (map (\<lambda>(n, m). ''COALESCE('' @ sparse_table @ ''.'' @ name m @ '', 0) as '' @ name m)
                (s (metrics self))) \<and>
     ids_array self = Inr ia \<and>
     cal self = Inr cl \<and>
     cl = cal_fx (cls self) @ ''('1 '' @ unit self @ ''s', '' @ ia @ '' '' @
     (if truthy (after self) then '', '' @ [CHR 0x27] @ str_opt (after self) @
     [CHR 0x27] else []) @ '' '' @ (if truthy (before self) then '', '' @ [CHR 0x27] @
     str_opt (before self) @ [CHR 0x27] else []) @ '')'' \<and>
     non_sparse_query s self = Inr dens \<and>
     dens =
     ''WITH '' @ sparse_table @ '' as (\<newline>                    '' @ inner @
     ''\<newline>                ),\<newline>                cal as (\<newline>                    select\<newline>                        '' @
     (if group_by_id self then id_col (cls self) @ '',\<newline>'' else []) @
     ''\<newline>                        '' @
     (if group_by_id self then date_col else ''distinct('' @ date_col @ '')'') @
     ''\<newline>                        from '' @ cl @
     ''\<newline>                )\<newline>                SELECT\<newline>                       '' @
     (if group_by_id self then ''cal.'' @ id_col (cls self) @ '',\<newline>'' else []) @
     ''\<newline>                       cal.'' @ date_col @
     '',\<newline>                       '' @ sel @
     ''\<newline>                FROM cal\<newline>                LEFT JOIN '' @ sparse_table @
     '' ON\<newline>                    cal.'' @ date_col @ '' = '' @ sparse_table @ ''.'' @
     date_col @ ''\<newline>                    '' @ (if group_by_id self then ''AND cal.'' @
     id_col (cls self) @ '' = '' @ sparse_table @ ''.'' @ id_col (cls self) else []) @
     ''\<newline>                ORDER BY cal.'' @ date_col @ '' '' @
     (if group_by_id self then '', cal.'' @ id_col (cls self) else []) @
     '' ASC\<newline>            '' \<and>
     (\<not> sparse self \<and> \<not> truthy (transform self) \<longrightarrow> query s self = Inr (Some dens))"
proof -
  have inner: "(if unit self = min_unit then init_query s self else agg_query s self) =
      Inr (if unit self = min_unit then init_query_text s self else agg_query_text s self)"
    by (simp only: init_query_eq agg_query_eq if_distrib [of Inr])
  have q: "query s self = Inr (Some (non_sparse_query_text s self))"
    if "\<not> sparse self" "\<not> truthy (transform self)"
    using that by (simp only: query_eq simp_thms if_True if_False)
  show ?thesis
    apply (rule exI [of _ "if unit self = min_unit then init_query_text s self
                           else agg_query_text s self"])
    apply (rule exI [of _ "non_sparse_select_text s self"])
    apply (rule exI [of _ "ids_array_text self"])
    apply (rule exI [of _ "cal_text self"])
    apply (rule exI [of _ "non_sparse_query_text s self"])
    apply (intro conjI impI)
            apply (rule inner)
           apply (rule non_sparse_select_eq)
          apply (simp only: non_sparse_select_text_def non_sparse_text_def)
         apply (rule ids_array_eq)
        apply (rule cal_eq)
       apply (simp only: cal_text_def cal_bound_text_def)
      apply (rule non_sparse_query_eq)
     apply (simp only: non_sparse_query_text_def)
    apply (erule conjE)
    apply (rule q; assumption)
    done
qed

theorem non_sparse_query_densifies_witness:
  "\<not> sparse (ex_self\<lparr>sparse := False, unit := ''day''\<rparr>) \<and>
   \<not> truthy (transform (ex_self\<lparr>sparse := False, unit := ''day''\<rparr>)) \<and>
   query ex_store (ex_self\<lparr>sparse := False, unit := ''day''\<rparr>) =
     map_sum id Some (non_sparse_query ex_store (ex_self\<lparr>sparse := False, unit := ''day''\<rparr>)) \<and>
   non_sparse_select ex_store (ex_self\<lparr>sparse := False, unit := ''day''\<rparr>) =
     Inr ''COALESCE(sparse.pageviews, 0) as pageviews,\<newline>COALESCE(sparse.followers, 0) as followers'' \<and>
   cal (ex_self\<lparr>sparse := False, unit := ''day''\<rparr>) =
     Inr ''content_metric_calendar('1 days', ARRAY[7]  )''"
proof -
  let ?q = "ex_self\<lparr>sparse := False, unit := ''day''\<rparr>"
  have h: "\<not> sparse ?q \<and> \<not> truthy (transform ?q)"
    by (simp add: ex_self_def truthy_def)
  from non_sparse_query_densifies [where s = ex_store and self = ?q]
  obtain sel ia cl dens where
    sel: "non_sparse_select ex_store ?q = Inr sel"
      "sel = join '',\<newline>''
             (map (\<lambda>(n, m). ''COALESCE('' @ sparse_table @ ''.'' @ name m @ '', 0) as '' @ name m)
                (ex_store (metrics ?q)))"
    and cl: "ids_array ?q = Inr ia" "cal ?q = Inr cl"
      "cl = cal_fx (cls ?q) @ ''('1 '' @ unit ?q @ ''s', '' @ ia @ '' '' @
     (if truthy (after ?q) then '', '' @ [CHR 0x27] @ str_opt (after ?q) @ [CHR 0x27] else []) @
     '' '' @ (if truthy (before ?q) then '', '' @ [CHR 0x27] @ str_opt (before ?q) @
     [CHR 0x27] else []) @ '')''"
    and dens: "non_sparse_query ex_store ?q = Inr dens"
      "\<not> sparse ?q \<and> \<not> truthy (transform ?q) \<longrightarrow> query ex_store ?q = Inr (Some dens)"
    by blast
  have ia: "ia = ''ARRAY[7]''"
    using cl(1) by (simp add: ids_array_eq ids_array_text_def ex_self_def str_int_def)
  have 1: "query ex_store ?q = map_sum id Some (non_sparse_query ex_store ?q)"
    using dens h by simp
  have 2: "non_sparse_select ex_store ?q =
     Inr ''COALESCE(sparse.pageviews, 0) as pageviews,\<newline>COALESCE(sparse.followers, 0) as followers''"
    unfolding sel
    by (simp add: ex_store_def ex_self_def pageviews_def followers_def sparse_table_def)
  have 3: "cal ?q = Inr ''content_metric_calendar('1 days', ARRAY[7]  )''"
    unfolding cl ia
    by (simp add: ex_self_def truthy_def ContentMetricTimeseries_def)
  from h 1 2 3 show ?thesis
    by (simp only: simp_thms)
qed

subsection \<open>C6: select first, exclude second\<close>

text \<open>
  C6. After construction the base and the computed dict hold, of the names they had,
  those that \<open>select\<close> lists (all of them when \<open>select\<close> is \<open>"*"\<close>; a listed name the
  catalog does not have is no error) and \<open>exclude\<close> does not list. A name in both
  \<open>select\<close> and \<open>exclude\<close> is a key of neither dict, and the compiled query is the one a
  catalog without that name gives. The dicts have each key once.
\<close>

theorem selection_select_then_exclude:
  assumes "distinct (keys (s (metrics_attr c og)))"
    and "distinct (keys (s (computed_metrics_attr c og)))"
  shows "let sel = kw_get (kw_select kw) (Scalar ''*'');
             exc = kw_get (kw_exclude kw) (ListOf []);
             keep = (\<lambda>(n, m :: metric).
               (sel = Scalar ''*'' \<or> n \<in> set (as_list sel)) \<and> n \<notin> set (as_list exc))
         in \<exists>self s1.
              TSQuery_init c s og idv kw = Inr (self, s1) \<and>
              s1 (metrics self) = filter keep (s (metrics_attr c og)) \<and>
              s1 (computed_metrics self) = filter keep (s (computed_metrics_attr c og)) \<and>
              (\<forall>n. n \<in> set (as_list sel) \<and> n \<in> set (as_list exc) \<longrightarrow>
                 n \<notin> set (keys (s1 (metrics self))) \<and>
                 n \<notin> set (keys (s1 (computed_metrics self))) \<and>
                 compile c
                   (s(metrics_attr c og := filter (\<lambda>(k, v). k \<noteq> n) (s (metrics_attr c og)),
                      computed_metrics_attr c og :=
                        filter (\<lambda>(k, v). k \<noteq> n) (s (computed_metrics_attr c og))))
                   og idv kw =
                 compile c s og idv kw)"
proof -
  let ?sel = "kw_get (kw_select kw) (Scalar ''*'')"
  let ?exc = "kw_get (kw_exclude kw) (ListOf [])"
  let ?A = "metrics_attr c og" and ?B = "computed_metrics_attr c og"
  let ?self = "constructed c og idv kw"
  let ?s1 = "narrowed_store c og kw s"
  have init: "TSQuery_init c s og idv kw = Inr (?self, ?s1)"
    using assms by (rule TSQuery_init_eq)
  have A: "?s1 (metrics ?self) = narrowed ?sel ?exc (s ?A)"
    and B: "?s1 (computed_metrics ?self) = narrowed ?sel ?exc (s ?B)"
    by (simp_all add: constructed_fields narrowed_store_metrics)
  have absent: "n \<notin> set (keys (?s1 (metrics ?self)))"
    "n \<notin> set (keys (?s1 (computed_metrics ?self)))" if "n \<in> set (as_list ?exc)" for n
    unfolding A B using that by (rule narrowed_keys)+
  have same: "compile c (s(?A := filter (\<lambda>(k, v). k \<noteq> n) (s ?A),
                           ?B := filter (\<lambda>(k, v). k \<noteq> n) (s ?B))) og idv kw =
              compile c s og idv kw" if n: "n \<in> set (as_list ?exc)" for n
  proof -
    let ?t = "s(?A := filter (\<lambda>(k, v). k \<noteq> n) (s ?A), ?B := filter (\<lambda>(k, v). k \<noteq> n) (s ?B))"
    have tA: "?t ?A = filter (\<lambda>(k, v). k \<noteq> n) (s ?A)"
      and tB: "?t ?B = filter (\<lambda>(k, v). k \<noteq> n) (s ?B)"
      by (cases "?A = ?B"; simp)+
    have d: "distinct (keys (?t ?A))" "distinct (keys (?t ?B))"
      unfolding tA tB using assms by (simp_all add: distinct_keys_filter)
    have "narrowed_store c og kw ?t (metrics ?self) = ?s1 (metrics ?self)"
      unfolding constructed_fields narrowed_store_metrics tA
      using n by (rule narrowed_without)
    then have "query (narrowed_store c og kw ?t) ?self = query ?s1 ?self"
      by (rule queries_store_cong)
    then show ?thesis
      using compile_eq [where s = ?t and c = c and og = og and idv = idv and kw = kw]
        compile_eq [where s = s and c = c and og = og and idv = idv and kw = kw] d assms
      by simp
  qed
  show ?thesis
    unfolding Let_def
    apply (rule exI [of _ ?self])
    apply (rule exI [of _ ?s1])
    apply (intro conjI allI impI)
         apply (rule init)
        apply (simp add: A narrowed_def keeps_def)
       apply (simp add: B narrowed_def keeps_def)
      apply (erule conjE, erule absent(1))
     apply (erule conjE, erule absent(2))
    apply (erule conjE, erule same)
    done
qed

theorem selection_select_then_exclude_witness:
  "distinct (keys (ex_store (metrics_attr ContentMetricTimeseries ex_org))) \<and>
   distinct (keys (ex_store (computed_metrics_attr ContentMetricTimeseries ex_org))) \<and>
   ''followers'' \<in> set (as_list (ListOf [''pageviews'', ''followers'', ''shares''])) \<and>
   ''followers'' \<in> set (as_list (Scalar ''followers'')) \<and>
   TSQuery_init ContentMetricTimeseries ex_store ex_org (ListOf [7])
     (no_kw\<lparr>kw_select := Some (ListOf [''pageviews'', ''followers'', ''shares'']),
            kw_exclude := Some (Scalar ''followers'')\<rparr>) =
   Inr (ex_self\<lparr>select := ListOf [''pageviews'', ''followers'', ''shares''],
                 exclude := ListOf [''followers'']\<rparr>,
        ex_store(0 := [(''pageviews'', pageviews)], Suc 0 := [])) \<and>
   compile ContentMetricTimeseries
     (ex_store(0 := [(''pageviews'', pageviews)], Suc 0 := [(''ratio'', ratio)])) ex_org
     (ListOf [7])
     (no_kw\<lparr>kw_select := Some (ListOf [''pageviews'', ''followers'', ''shares'']),
            kw_exclude := Some (Scalar ''followers'')\<rparr>) =
   compile ContentMetricTimeseries ex_store ex_org (ListOf [7])
     (no_kw\<lparr>kw_select := Some (ListOf [''pageviews'', ''followers'', ''shares'']),
            kw_exclude := Some (Scalar ''followers'')\<rparr>)"
proof -
  let ?kw = "no_kw\<lparr>kw_select := Some (ListOf [''pageviews'', ''followers'', ''shares'']),
                   kw_exclude := Some (Scalar ''followers'')\<rparr>"
  let ?C = ContentMetricTimeseries
  have d: "distinct (keys (ex_store (metrics_attr ?C ex_org)))"
    "distinct (keys (ex_store (computed_metrics_attr ?C ex_org)))"
    by (simp_all add: ex_store_def ex_org_def ContentMetricTimeseries_def keys_def)
  have sel: "kw_get (kw_select ?kw) (Scalar ''*'') =
               ListOf [''pageviews'', ''followers'', ''shares'']"
    and exc: "kw_get (kw_exclude ?kw) (ListOf []) = Scalar ''followers''"
    by (simp_all add: kw_get_def)
  have n: "''followers'' \<in> set (as_list (ListOf [''pageviews'', ''followers'', ''shares'']))"
    "''followers'' \<in> set (as_list (Scalar ''followers''))"
    by (simp_all add: as_list_def)
  from selection_select_then_exclude [OF d, where kw = ?kw and idv = "ListOf [7]"]
  obtain self s1 where
    i: "TSQuery_init ?C ex_store ex_org (ListOf [7]) ?kw = Inr (self, s1)"
    and a: "\<forall>n. n \<in> set (as_list (ListOf [''pageviews'', ''followers'', ''shares''])) \<and>
               n \<in> set (as_list (Scalar ''followers'')) \<longrightarrow>
               n \<notin> set (keys (s1 (metrics self))) \<and>
               n \<notin> set (keys (s1 (computed_metrics self))) \<and>
               compile ?C
                 (ex_store(metrics_attr ?C ex_org :=
                    filter (\<lambda>(k, v). k \<noteq> n) (ex_store (metrics_attr ?C ex_org)),
                  computed_metrics_attr ?C ex_org :=
                    filter (\<lambda>(k, v). k \<noteq> n) (ex_store (computed_metrics_attr ?C ex_org))))
                 ex_org (ListOf [7]) ?kw =
               compile ?C ex_store ex_org (ListOf [7]) ?kw"
    unfolding Let_def sel exc by blast
  have t: "ex_store(metrics_attr ?C ex_org :=
             filter (\<lambda>(k, v). k \<noteq> ''followers'') (ex_store (metrics_attr ?C ex_org)),
           computed_metrics_attr ?C ex_org :=
             filter (\<lambda>(k, v). k \<noteq> ''followers'') (ex_store (computed_metrics_attr ?C ex_org))) =
           ex_store(0 := [(''pageviews'', pageviews)], Suc 0 := [(''ratio'', ratio)])"
    by (simp add: ContentMetricTimeseries_def ex_org_def ex_store_def)
  from a n have c: "compile ?C
      (ex_store(0 := [(''pageviews'', pageviews)], Suc 0 := [(''ratio'', ratio)])) ex_org
      (ListOf [7]) ?kw = compile ?C ex_store ex_org (ListOf [7]) ?kw"
    unfolding t [symmetric] by blast
  have r: "TSQuery_init ?C ex_store ex_org (ListOf [7]) ?kw =
     Inr (ex_self\<lparr>select := ListOf [''pageviews'', ''followers'', ''shares''],
                   exclude := ListOf [''followers'']\<rparr>,
          ex_store(0 := [(''pageviews'', pageviews)], Suc 0 := []))"
    unfolding TSQuery_init_eq [OF d]
    by (simp add: constructed_def narrowed_store_def narrowed_def keeps_def ex_self_def
        no_kw_def kw_get_def as_list_def format_dates_def truthy_def min_unit_def
        ContentMetricTimeseries_def ex_org_def ex_store_def fun_upd_twist)
  from d n r c show ?thesis
    by (simp only: simp_thms)
qed

subsection \<open>C7: selection changes the dicts of the catalog in place\<close>

text \<open>
  C7 (counterexample). Selection does not build new maps: the keys are removed with
  \<open>pop\<close> from the dicts that the catalog attributes return. For the catalog of the
  example, asking for \<open>pageviews\<close> alone leaves the dict at the catalog's address
  without \<open>followers\<close>.
\<close>

theorem selection_leaves_catalog_counterexample:
  "TSQuery_init ContentMetricTimeseries ex_store ex_org (ListOf [7])
     (no_kw\<lparr>kw_select := Some (Scalar ''pageviews'')\<rparr>) =
   Inr (ex_self\<lparr>select := ListOf [''pageviews'']\<rparr>,
        ex_store(0 := [(''pageviews'', pageviews)], Suc 0 := [])) \<and>
   content_timeseries_metrics ex_org = 0 \<and>
   ex_store 0 = [(''pageviews'', pageviews), (''followers'', followers)] \<and>
   (ex_store(0 := [(''pageviews'', pageviews)], Suc 0 := [])) 0 \<noteq> ex_store 0"
proof -
  have d: "distinct (keys (ex_store (metrics_attr ContentMetricTimeseries ex_org)))"
    "distinct (keys (ex_store (computed_metrics_attr ContentMetricTimeseries ex_org)))"
    by (simp_all add: ex_store_def ex_org_def ContentMetricTimeseries_def keys_def)
  show ?thesis
    unfolding TSQuery_init_eq [OF d]
    by (simp add: constructed_def narrowed_store_def narrowed_def keeps_def ex_self_def
        no_kw_def kw_get_def as_list_def format_dates_def truthy_def min_unit_def
        ContentMetricTimeseries_def ex_org_def ex_store_def fun_upd_twist)
qed

text \<open>
  C7 (amended). The object's \<open>metrics\<close> and \<open>computed_metrics\<close> are the dicts the
  catalog attributes return, not copies. The removal loops run over a list of the keys
  made before each loop and never raise; afterwards those two dicts hold the kept names
  only, and every other dict of the store is as it was.
\<close>

theorem selection_narrows_in_place:
  assumes "distinct (keys (s (metrics_attr c og)))"
    and "distinct (keys (s (computed_metrics_attr c og)))"
  shows "let sel = kw_get (kw_select kw) (Scalar ''*'');
             exc = kw_get (kw_exclude kw) (ListOf []);
             keep = (\<lambda>(n, m :: metric).
               (sel = Scalar ''*'' \<or> n \<in> set (as_list sel)) \<and> n \<notin> set (as_list exc))
         in \<exists>self s1.
              TSQuery_init c s og idv kw = Inr (self, s1) \<and>
              metrics self = metrics_attr c og \<and>
              computed_metrics self = computed_metrics_attr c og \<and>
              s1 (metrics_attr c og) = filter keep (s (metrics_attr c og)) \<and>
              s1 (computed_metrics_attr c og) = filter keep (s (computed_metrics_attr c og)) \<and>
              (\<forall>a. a \<noteq> metrics_attr c og \<and> a \<noteq> computed_metrics_attr c og \<longrightarrow> s1 a = s a)"
proof -
  let ?self = "constructed c og idv kw"
  let ?s1 = "narrowed_store c og kw s"
  have init: "TSQuery_init c s og idv kw = Inr (?self, ?s1)"
    using assms by (rule TSQuery_init_eq)
  have frame: "?s1 a = s a" if "a \<noteq> metrics_attr c og" "a \<noteq> computed_metrics_attr c og" for a
    using that by (simp add: narrowed_store_def)
  show ?thesis
    unfolding Let_def
    apply (rule exI [of _ ?self])
    apply (rule exI [of _ ?s1])
    apply (intro conjI allI impI)
         apply (rule init)
        apply (rule constructed_fields)
       apply (rule constructed_fields)
      apply (simp add: narrowed_store_metrics narrowed_def keeps_def)
     apply (simp add: narrowed_store_metrics narrowed_def keeps_def)
    apply (erule conjE, erule (1) frame)
    done
qed

theorem selection_narrows_in_place_witness:
  "distinct (keys (ex_store (metrics_attr ContentMetricTimeseries ex_org))) \<and>
   distinct (keys (ex_store (computed_metrics_attr ContentMetricTimeseries ex_org))) \<and>
   2 \<noteq> metrics_attr ContentMetricTimeseries ex_org \<and>
   2 \<noteq> computed_metrics_attr ContentMetricTimeseries ex_org \<and>
   snd (projr (TSQuery_init ContentMetricTimeseries ex_store ex_org (ListOf [7])
     (no_kw\<lparr>kw_exclude := Some (Scalar ''followers'')\<rparr>))) 0 = [(''pageviews'', pageviews)] \<and>
   snd (projr (TSQuery_init ContentMetricTimeseries ex_store ex_org (ListOf [7])
     (no_kw\<lparr>kw_exclude := Some (Scalar ''followers'')\<rparr>))) 2 = ex_store 2"
proof -
  let ?kw = "no_kw\<lparr>kw_exclude := Some (Scalar ''followers'')\<rparr>"
  have d: "distinct (keys (ex_store (metrics_attr ContentMetricTimeseries ex_org)))"
    "distinct (keys (ex_store (computed_metrics_attr ContentMetricTimeseries ex_org)))"
    by (simp_all add: ex_store_def ex_org_def ContentMetricTimeseries_def keys_def)
  have a: "2 \<noteq> metrics_attr ContentMetricTimeseries ex_org"
    "2 \<noteq> computed_metrics_attr ContentMetricTimeseries ex_org"
    by (simp_all add: ex_org_def ContentMetricTimeseries_def)
  from selection_narrows_in_place [OF d, where kw = ?kw and idv = "ListOf [7]"]
  obtain self s1 where
    i: "TSQuery_init ContentMetricTimeseries ex_store ex_org (ListOf [7]) ?kw = Inr (self, s1)"
    and m: "s1 (metrics_attr ContentMetricTimeseries ex_org) =
      filter (\<lambda>(n, m). (kw_get (kw_select ?kw) (Scalar ''*'') = Scalar ''*'' \<or>
                          n \<in> set (as_list (kw_get (kw_select ?kw) (Scalar ''*'')))) \<and>
                         n \<notin> set (as_list (kw_get (kw_exclude ?kw) (ListOf []))))
        (ex_store (metrics_attr ContentMetricTimeseries ex_org))"
    and f: "\<forall>a. a \<noteq> metrics_attr ContentMetricTimeseries ex_org \<and>
                a \<noteq> computed_metrics_attr ContentMetricTimeseries ex_org \<longrightarrow> s1 a = ex_store a"
    unfolding Let_def by blast
  have 1: "s1 0 = [(''pageviews'', pageviews)]"
    using m
    by (simp add: ContentMetricTimeseries_def ex_org_def ex_store_def no_kw_def kw_get_def
        as_list_def)
  have 2: "s1 2 = ex_store 2"
    using f a by blast
  from d a 1 2 show ?thesis
    unfolding i by simp
qed

subsection \<open>C8: computed metrics are never compiled\<close>

text \<open>
  C8 (counterexample). The metric \<open>ratio\<close> gives a statement of the init query when it
  is in the base dict, and none when it is in the computed dict: a computed metric does
  not appear as a base metric with the same definition would.
\<close>

theorem computed_like_base_counterexample:
  "init_select (ex_store(0 := [(''ratio'', ratio)], Suc 0 := [])) ex_self =
     Inr ''(metrics ->> 'ratio')::text::numeric as ratio'' \<and>
   init_select (ex_store(0 := [], Suc 0 := [(''ratio'', ratio)])) ex_self = Inr '''' \<and>
   metrics ex_self = 0 \<and> computed_metrics ex_self = Suc 0"
  by (simp add: init_select_eq init_select_text_def simple_text_def json_text_def ex_self_def
      ratio_def metrics_col_def)

text \<open>
  C8 (amended). Selection narrows the computed dict as it narrows the base dict, but the
  compiler reads the base dict only: the four select lists and every query are the same
  for two stores that hold the same base dict, whatever their computed dicts hold.
\<close>

theorem computed_metrics_not_compiled:
  assumes "s (metrics self) = t (metrics self)"
  shows "init_select s self = init_select t self \<and>
         agg_select s self = agg_select t self \<and>
         non_sparse_select s self = non_sparse_select t self \<and>
         cumulative_select s self = cumulative_select t self \<and>
         init_query s self = init_query t self \<and>
         agg_query s self = agg_query t self \<and>
         non_sparse_query s self = non_sparse_query t self \<and>
         cumulative_query s self = cumulative_query t self \<and>
         query s self = query t self"
  using assms by (intro conjI select_lists_store_cong queries_store_cong)

theorem computed_metrics_not_compiled_witness:
  "ex_store (metrics ex_self) = (ex_store(Suc 0 := [])) (metrics ex_self) \<and>
   ex_store (computed_metrics ex_self) \<noteq> (ex_store(Suc 0 := [])) (computed_metrics ex_self) \<and>
   query ex_store ex_self = query (ex_store(Suc 0 := [])) ex_self"
proof -
  have m: "ex_store (metrics ex_self) = (ex_store(Suc 0 := [])) (metrics ex_self)"
    by (simp add: ex_self_def)
  have c: "ex_store (computed_metrics ex_self) \<noteq> (ex_store(Suc 0 := [])) (computed_metrics ex_self)"
    by (simp add: ex_self_def ex_store_def)
  from computed_metrics_not_compiled
    [where s = ex_store and t = "ex_store(Suc 0 := [])" and self = ex_self] m c
  show ?thesis
    by (simp only: simp_thms)
qed

subsection \<open>C9: the text depends on what the catalog dicts hold when the object is made\<close>




subsection \<open>C10: a scalar argument is wrapped into a list, except \<open>"*"\<close>\<close>

text \<open>
  C10 (counterexample). The scalar \<open>"*"\<close> for \<open>select\<close> is not wrapped: it selects
  every metric, while the list \<open>["*"]\<close> selects the metrics named \<open>*\<close>, here none. The
  two query texts differ.
\<close>

theorem scalar_star_counterexample:
  "TSQuery_init ContentMetricTimeseries ex_store ex_org (ListOf [7])
     (no_kw\<lparr>kw_select := Some (Scalar ''*'')\<rparr>) = Inr (ex_self, ex_store) \<and>
   TSQuery_init ContentMetricTimeseries ex_store ex_org (ListOf [7])
     (no_kw\<lparr>kw_select := Some (ListOf [''*''])\<rparr>) =
     Inr (ex_self\<lparr>select := ListOf [''*'']\<rparr>, ex_store(0 := [], Suc 0 := [])) \<and>
   init_select ex_store ex_self \<noteq>
     init_select (ex_store(0 := [], Suc 0 := [])) (ex_self\<lparr>select := ListOf [''*'']\<rparr>) \<and>
   compile ContentMetricTimeseries ex_store ex_org (ListOf [7])
     (no_kw\<lparr>kw_select := Some (Scalar ''*'')\<rparr>) \<noteq>
   compile ContentMetricTimeseries ex_store ex_org (ListOf [7])
     (no_kw\<lparr>kw_select := Some (ListOf [''*''])\<rparr>)"
proof -
  let ?q = "ex_self\<lparr>select := ListOf [''*'']\<rparr>"
  let ?s = "ex_store(0 := [], Suc 0 := [])"
  have d: "distinct (keys (ex_store (metrics_attr ContentMetricTimeseries ex_org)))"
    "distinct (keys (ex_store (computed_metrics_attr ContentMetricTimeseries ex_org)))"
    by (simp_all add: ex_store_def ex_org_def ContentMetricTimeseries_def keys_def)
  have 1: "TSQuery_init ContentMetricTimeseries ex_store ex_org (ListOf [7])
     (no_kw\<lparr>kw_select := Some (Scalar ''*'')\<rparr>) = Inr (ex_self, ex_store)"
    unfolding TSQuery_init_eq [OF d]
    by (simp add: constructed_def narrowed_store_def narrowed_def keeps_def ex_self_def
        no_kw_def kw_get_def as_list_def format_dates_def truthy_def min_unit_def
        ContentMetricTimeseries_def ex_org_def filter_True_pair)
  have 2: "TSQuery_init ContentMetricTimeseries ex_store ex_org (ListOf [7])
     (no_kw\<lparr>kw_select := Some (ListOf [''*''])\<rparr>) = Inr (?q, ?s)"
    unfolding TSQuery_init_eq [OF d]
    by (simp add: constructed_def narrowed_store_def narrowed_def keeps_def ex_self_def
        no_kw_def kw_get_def as_list_def format_dates_def truthy_def min_unit_def
        ContentMetricTimeseries_def ex_org_def ex_store_def fun_upd_twist)
  have 3: "init_select ex_store ex_self \<noteq> init_select ?s ?q"
    by (simp add: init_select_eq init_select_text_def simple_text_def json_text_def
        ex_self_def ex_store_def pageviews_def followers_def)
  have "init_query_text ex_store ex_self \<noteq> init_query_text ?s ?q"
    by (simp add: init_query_text_def init_select_text_def simple_text_def json_text_def
        id_col_comma_def ids_array_text_def date_filter_text_def
        ex_self_def ex_store_def pageviews_def followers_def)
  then have 4: "compile ContentMetricTimeseries ex_store ex_org (ListOf [7])
       (no_kw\<lparr>kw_select := Some (Scalar ''*'')\<rparr>) \<noteq>
     compile ContentMetricTimeseries ex_store ex_org (ListOf [7])
       (no_kw\<lparr>kw_select := Some (ListOf [''*''])\<rparr>)"
    unfolding compile_def 1 2
    by (simp add: query_eq ex_self_def truthy_def min_unit_def)
  from 1 2 3 4 show ?thesis
    by (simp only: simp_thms)
qed

text \<open>
  C10 (amended). A scalar id, a scalar \<open>exclude\<close> and a scalar \<open>select\<close> other than
  \<open>"*"\<close> are wrapped into a list of one element before anything is filtered or
  compiled: the constructor returns the same object and store, and the query text is the
  same, as for the list of that one element.
\<close>

theorem scalar_is_singleton_list:
  "TSQuery_init c s og (Scalar i) kw = TSQuery_init c s og (ListOf [i]) kw \<and>
   compile c s og (Scalar i) kw = compile c s og (ListOf [i]) kw \<and>
   TSQuery_init c s og idv (kw\<lparr>kw_exclude := Some (Scalar x)\<rparr>) =
     TSQuery_init c s og idv (kw\<lparr>kw_exclude := Some (ListOf [x])\<rparr>) \<and>
   compile c s og idv (kw\<lparr>kw_exclude := Some (Scalar x)\<rparr>) =
     compile c s og idv (kw\<lparr>kw_exclude := Some (ListOf [x])\<rparr>) \<and>
   (x \<noteq> ''*'' \<longrightarrow>
      TSQuery_init c s og idv (kw\<lparr>kw_select := Some (Scalar x)\<rparr>) =
        TSQuery_init c s og idv (kw\<lparr>kw_select := Some (ListOf [x])\<rparr>) \<and>
      compile c s og idv (kw\<lparr>kw_select := Some (Scalar x)\<rparr>) =
        compile c s og idv (kw\<lparr>kw_select := Some (ListOf [x])\<rparr>))"
proof -
  have ids: "TSQuery_init c s og (Scalar i) kw = TSQuery_init c s og (ListOf [i]) kw"
    by (simp add: TSQuery_init_def as_list_def)
  have exc: "TSQuery_init c s og idv (kw\<lparr>kw_exclude := Some (Scalar x)\<rparr>) =
     TSQuery_init c s og idv (kw\<lparr>kw_exclude := Some (ListOf [x])\<rparr>)"
    by (simp add: TSQuery_init_def kw_get_def select_metrics_scalar_exclude [where x = x])
  have sel: "TSQuery_init c s og idv (kw\<lparr>kw_select := Some (Scalar x)\<rparr>) =
     TSQuery_init c s og idv (kw\<lparr>kw_select := Some (ListOf [x])\<rparr>)" if "x \<noteq> ''*''"
    using that
    by (simp add: TSQuery_init_def kw_get_def select_metrics_scalar_select [where x = x])
  show ?thesis
    by (simp add: compile_def ids exc sel)
qed

theorem scalar_is_singleton_list_witness:
  "''pageviews'' \<noteq> ''*'' \<and>
   compile ContentMetricTimeseries ex_store ex_org (ListOf [7])
     (no_kw\<lparr>kw_select := Some (Scalar ''pageviews'')\<rparr>) =
   compile ContentMetricTimeseries ex_store ex_org (ListOf [7])
     (no_kw\<lparr>kw_select := Some (ListOf [''pageviews''])\<rparr>) \<and>
   TSQuery_init ContentMetricTimeseries ex_store ex_org (ListOf [7])
     (no_kw\<lparr>kw_select := Some (Scalar ''pageviews'')\<rparr>) =
   TSQuery_init ContentMetricTimeseries ex_store ex_org (ListOf [7])
     (no_kw\<lparr>kw_select := Some (ListOf [''pageviews''])\<rparr>)"
proof -
  have n: "''pageviews'' \<noteq> ''*''"
    by simp
  from scalar_is_singleton_list
    [where x = "''pageviews''" and c = ContentMetricTimeseries and s = ex_store and og = ex_org
      and idv = "ListOf [7]" and kw = no_kw] n
  show ?thesis
    by (simp only: simp_thms)
qed

end
